theory Spec2Isabelle
  imports Complex_Main "HOL-Library.Word"
begin

section \<open>The inference-scheduler operator: data model\<close>

text \<open>
  A shallow embedding of \<^verbatim>\<open>internal/controller/inferencescheduler_controller.go\<close>,
  \<^verbatim>\<open>internal/controller/resources.go\<close> and \<^verbatim>\<open>api/v1alpha1/inferencescheduler_types.go\<close>.
  Go strings are byte strings (\<^typ>\<open>string\<close>), \<^verbatim>\<open>int32\<close> is \<^typ>\<open>32 word\<close>, a pointer
  that may be nil is an \<^typ>\<open>'a option\<close>, and a \<^verbatim>\<open>float64\<close> that is only stored and
  formatted is a rational number.
\<close>

type_synonym int32 = "32 word"
type_synonym float64 = rat
type_synonym time = nat

subsection \<open>Errors\<close>

text \<open>
  An error value carries its text (\<^verbatim>\<open>err.Error()\<close>). The two classes the controller tests
  for are \<^verbatim>\<open>errors.IsNotFound\<close> and \<^verbatim>\<open>meta.IsNoMatchError\<close>; a panic is an error of its
  own, so that a nil dereference is a branch of the model.
\<close>

datatype error =
    NotFoundError string
  | NoMatchError string
  | OtherError string
  | Panic string

fun IsNotFound :: "error \<Rightarrow> bool" where
  "IsNotFound (NotFoundError m) = True"
| "IsNotFound e = False"

fun IsNoMatchError :: "error \<Rightarrow> bool" where
  "IsNoMatchError (NoMatchError m) = True"
| "IsNoMatchError e = False"

fun ErrorText :: "error \<Rightarrow> string" where
  "ErrorText (NotFoundError m) = m"
| "ErrorText (NoMatchError m) = m"
| "ErrorText (OtherError m) = m"
| "ErrorText (Panic m) = m"

subsection \<open>The custom resource (inferencescheduler\_types.go)\<close>

record ScorerPlugin =
  Enabled :: bool
  Weight :: "float64 option"
  Parameters :: "string \<rightharpoonup> string"

record PluginConfig =
  LoadAwareScorer :: "ScorerPlugin option"
  PrefixCacheScorer :: "ScorerPlugin option"
  KVCacheUtilizationScorer :: "ScorerPlugin option"

text \<open>\<^verbatim>\<open>corev1.ResourceRequirements\<close> is passed through unread: limits and requests by name.\<close>

type_synonym ResourceRequirements = "(string \<times> string) list \<times> (string \<times> string) list"

record ModelServerSpec =
  ms_Type :: string
  ms_ModelName :: string
  ms_Replicas :: int32
  ms_Image :: string
  ms_Resources :: ResourceRequirements
  ms_EnablePrefixCaching :: bool
  ms_GPUMemoryUtilization :: "float64 option"
  ms_HFTokenSecretName :: string
  ms_Port :: int32
  ms_Labels :: "string \<rightharpoonup> string"

record EndpointPickerSpec =
  epp_Image :: string
  epp_Replicas :: int32
  epp_GRPCPort :: int32
  epp_Plugins :: PluginConfig
  epp_Resources :: ResourceRequirements

record GatewaySpec =
  gw_ClassName :: string
  gw_ListenerPort :: int32
  gw_ServiceType :: string
  gw_Name :: string

record InferenceSchedulerSpec =
  ModelServer :: ModelServerSpec
  EndpointPicker :: EndpointPickerSpec
  Gateway :: GatewaySpec

datatype ConditionStatus = ConditionTrue | ConditionFalse | ConditionUnknown

record Condition =
  c_Type :: string
  c_Status :: ConditionStatus
  c_ObservedGeneration :: int
  c_LastTransitionTime :: time
  c_Reason :: string
  c_Message :: string

record InferenceSchedulerStatus =
  Conditions :: "Condition list"
  Phase :: string
  ModelServerReplicas :: int32
  EPPReplicas :: int32
  GatewayReady :: bool
  InferencePoolReady :: bool
  PrerequisitesValidated :: bool
  PrerequisiteMessage :: string

text \<open>
  The fields of \<^verbatim>\<open>metav1.ObjectMeta\<close> the controller reads or writes. A nil or zero
  \<^verbatim>\<open>DeletionTimestamp\<close> is \<^term>\<open>None\<close>.
\<close>

record InferenceScheduler =
  Name :: string
  Namespace :: string
  UID :: string
  Generation :: int
  DeletionTimestamp :: "time option"
  Finalizers :: "string list"
  Spec :: InferenceSchedulerSpec
  Status :: InferenceSchedulerStatus

subsection \<open>Constants and small helpers\<close>

definition finalizerName :: string where
  "finalizerName = ''llm.llm-d.io/finalizer''"

definition defaultModelServerImage :: string where
  "defaultModelServerImage = ''vllm/vllm-openai:latest''"

definition defaultEPPImage :: string where
  "defaultEPPImage = ''ghcr.io/llm-d/llm-d-inference-scheduler:v0.3.2''"

definition defaultModelServerPort :: int32 where
  "defaultModelServerPort = 8000"

definition defaultEPPGRPCPort :: int32 where
  "defaultEPPGRPCPort = 9002"

definition defaultGatewayPort :: int32 where
  "defaultGatewayPort = 80"

text \<open>\<^verbatim>\<open>getDefaultInt32(value *int32, defaultValue int32)\<close>: the pointer is an option.\<close>

fun getDefaultInt32 :: "int32 option \<Rightarrow> int32 \<Rightarrow> int32" where
  "getDefaultInt32 (Some v) defaultValue = v"
| "getDefaultInt32 None defaultValue = defaultValue"

definition getDefaultString :: "string \<Rightarrow> string \<Rightarrow> string" where
  "getDefaultString v defaultValue = (if v \<noteq> [] then v else defaultValue)"

fun getDefaultFloat64 :: "float64 option \<Rightarrow> float64 \<Rightarrow> float64" where
  "getDefaultFloat64 (Some v) defaultValue = v"
| "getDefaultFloat64 None defaultValue = defaultValue"

subsection \<open>sanitizeName\<close>

text \<open>
  \<^verbatim>\<open>strings.ToLower\<close>, the replacement of every character outside \<^verbatim>\<open>[a-z0-9\-]\<close> by a
  hyphen, \<^verbatim>\<open>strings.Trim(s, "-")\<close> and the cut at 63 bytes, in the order of the source.
  The model works on bytes, which is what Go does on ASCII input; on other input Go
  replaces each multi-byte rune by a single hyphen where the model writes one per byte.
\<close>

definition toLowerChar :: "char \<Rightarrow> char" where
  "toLowerChar c =
     (if 65 \<le> (of_char c :: nat) \<and> (of_char c :: nat) \<le> 90
      then char_of ((of_char c :: nat) + 32) else c)"

definition ToLower :: "string \<Rightarrow> string" where
  "ToLower s = map toLowerChar s"

definition nameChar :: "char \<Rightarrow> bool" where
  "nameChar c \<longleftrightarrow>
     (97 \<le> (of_char c :: nat) \<and> (of_char c :: nat) \<le> 122)
   \<or> (48 \<le> (of_char c :: nat) \<and> (of_char c :: nat) \<le> 57)
   \<or> c = CHR ''-''"

definition replaceInvalid :: "string \<Rightarrow> string" where
  "replaceInvalid s = map (\<lambda>c. if nameChar c then c else CHR ''-'') s"

definition isHyphen :: "char \<Rightarrow> bool" where
  "isHyphen c \<longleftrightarrow> c = CHR ''-''"

definition TrimHyphens :: "string \<Rightarrow> string" where
  "TrimHyphens s = rev (dropWhile isHyphen (rev (dropWhile isHyphen s)))"

definition sanitizeName :: "string \<Rightarrow> string" where
  "sanitizeName name =
     (let sanitized = replaceInvalid (ToLower name);
          sanitized = TrimHyphens sanitized
      in if length sanitized > 63 then take 63 sanitized else sanitized)"

text \<open>An input of 64 characters: 62 letters followed by \<^verbatim>\<open>-b\<close>.\<close>

definition longName :: string where
  "longName = replicate 62 (CHR ''a'') @ ''-b''"

subsection \<open>Conditions\<close>

fun FindStatusCondition :: "Condition list \<Rightarrow> string \<Rightarrow> Condition option" where
  "FindStatusCondition [] t = None"
| "FindStatusCondition (c # cs) t =
     (if c_Type c = t then Some c else FindStatusCondition cs t)"

text \<open>
  Modelled from the spec: \<^verbatim>\<open>meta.SetStatusCondition\<close> belongs to k8s.io/apimachinery and
  is not under src/. Following section 4.6 it is an upsert by type: a type that is not
  in the list yet is appended as given; for a type that is there, the entry is
  rewritten in place, its last-transition-time replaced only if the status differs from
  the stored one, its reason, message and observed generation replaced by the new ones.
\<close>

fun overwriteCondition :: "Condition list \<Rightarrow> Condition \<Rightarrow> Condition list" where
  "overwriteCondition [] n = []"
| "overwriteCondition (c # cs) n =
     (if c_Type c = c_Type n
      then c\<lparr>c_Status := c_Status n,
             c_LastTransitionTime :=
               (if c_Status c \<noteq> c_Status n then c_LastTransitionTime n
                else c_LastTransitionTime c),
             c_Reason := c_Reason n,
             c_Message := c_Message n,
             c_ObservedGeneration := c_ObservedGeneration n\<rparr> # cs
      else c # overwriteCondition cs n)"

definition SetStatusCondition :: "Condition list \<Rightarrow> Condition \<Rightarrow> Condition list" where
  "SetStatusCondition conditions newCondition =
     (case FindStatusCondition conditions (c_Type newCondition) of
        None \<Rightarrow> conditions @ [newCondition]
      | Some existing \<Rightarrow> overwriteCondition conditions newCondition)"

text \<open>
  \<^verbatim>\<open>updateCondition\<close>: the reading of the clock (\<^verbatim>\<open>metav1.Now()\<close>) is the last argument.
\<close>

definition updateCondition ::
  "InferenceScheduler \<Rightarrow> string \<Rightarrow> ConditionStatus \<Rightarrow> string \<Rightarrow> string \<Rightarrow> time
     \<Rightarrow> InferenceScheduler" where
  "updateCondition infScheduler conditionType status reason message now =
     (let condition = \<lparr>c_Type = conditionType,
                        c_Status = status,
                        c_ObservedGeneration = Generation infScheduler,
                        c_LastTransitionTime = now,
                        c_Reason = reason,
                        c_Message = message\<rparr>
      in infScheduler\<lparr>Status := (Status infScheduler)
           \<lparr>Conditions := SetStatusCondition (Conditions (Status infScheduler)) condition\<rparr>\<rparr>)"

subsection \<open>Child objects\<close>

record OwnerReference =
  or_APIVersion :: string
  or_Kind :: string
  or_Name :: string
  or_UID :: string
  or_Controller :: bool
  or_BlockOwnerDeletion :: bool

text \<open>
  A container argument or a piece of generated text: \<^verbatim>\<open>fmt.Sprintf\<close> with \<^verbatim>\<open>%s\<close> is
  string concatenation; with a numeric verb (\<^verbatim>\<open>%d\<close>, \<^verbatim>\<open>%.2f\<close>, \<^verbatim>\<open>%.1f\<close>) the text before
  the verb and the number are kept apart.
\<close>

datatype arg =
    Arg string
  | Sprintf_d string int32
  | Sprintf_f string float64

type_synonym labels = "string \<rightharpoonup> string"

text \<open>What each builder puts into the object besides its metadata.\<close>

datatype payload =
    DeploymentPayload
      (dp_Replicas: "int32 option") (dp_Selector: labels) (dp_TemplateLabels: labels)
      (dp_ServiceAccountName: string) (dp_ContainerName: string) (dp_Image: string)
      (dp_Args: "arg list") (dp_Ports: "(string \<times> int32) list")
      (dp_Resources: ResourceRequirements) (dp_SecretName: "string option")
      (dp_ConfigMapVolume: "string option")
  | ServicePayload (sp_Selector: labels) (sp_Ports: "(string \<times> int32 \<times> int) list")
      (sp_Type: string)
  | ServiceAccountPayload
  | RolePayload "(string list \<times> string list \<times> string list) list"
  | RoleBindingPayload (rb_SubjectKind: string) (rb_SubjectName: string)
      (rb_SubjectNamespace: string) (rb_RoleKind: string) (rb_RoleName: string)
  | ConfigMapPayload "(string \<times> arg list) list"
  | InferencePoolPayload (ip_MatchLabels: labels) (ip_TargetPort: int32)
      (ip_PickerName: string) (ip_PickerPort: int32) (ip_FailureMode: string)
  | GatewayPayload (gp_ClassName: string) (gp_ListenerPort: int32)
  | HTTPRoutePayload (hp_Gateway: string) (hp_GatewayNamespace: string)
      (hp_PathPrefix: string) (hp_Pool: string) (hp_Port: int32)

record object =
  o_APIVersion :: string
  o_Kind :: string
  o_Name :: string
  o_Namespace :: string
  o_Labels :: labels
  o_ResourceVersion :: string
  o_OwnerReferences :: "OwnerReference list"
  o_Payload :: payload
  o_ReadyReplicas :: int32

subsection \<open>Builders (resources.go)\<close>

definition buildModelServerDeployment :: "InferenceScheduler \<Rightarrow> object" where
  "buildModelServerDeployment infScheduler =
     (let modelName = sanitizeName (ms_ModelName (ModelServer (Spec infScheduler)));
          labels = [''app'' \<mapsto> ''vllm'',
                    ''model'' \<mapsto> modelName,
                    ''app.kubernetes.io/name'' \<mapsto> ''model-server'',
                    ''app.kubernetes.io/instance'' \<mapsto> Name infScheduler,
                    ''app.kubernetes.io/component'' \<mapsto> ''inference'']
                   ++ ms_Labels (ModelServer (Spec infScheduler));
          replicas = getDefaultInt32 (Some (ms_Replicas (ModelServer (Spec infScheduler)))) 2;
          image = getDefaultString (ms_Image (ModelServer (Spec infScheduler)))
                    defaultModelServerImage;
          port = getDefaultInt32 (Some (ms_Port (ModelServer (Spec infScheduler))))
                    defaultModelServerPort;
          args = [Arg (''--model='' @ ms_ModelName (ModelServer (Spec infScheduler))),
                  Sprintf_d ''--port='' port];
          args = (if ms_EnablePrefixCaching (ModelServer (Spec infScheduler))
                  then args @ [Arg ''--enable-prefix-caching''] else args);
          gpuUtil = getDefaultFloat64
                      (ms_GPUMemoryUtilization (ModelServer (Spec infScheduler))) (9 / 10);
          args = args @ [Sprintf_f ''--gpu-memory-utilization='' gpuUtil]
      in \<lparr>o_APIVersion = ''apps/v1'',
          o_Kind = ''Deployment'',
          o_Name = Name infScheduler @ ''-vllm'',
          o_Namespace = Namespace infScheduler,
          o_Labels = labels,
          o_ResourceVersion = [],
          o_OwnerReferences = [],
          o_Payload = DeploymentPayload (Some replicas) labels labels [] ''vllm'' image args
                        [(''http'', port)]
                        (ms_Resources (ModelServer (Spec infScheduler)))
                        (Some (ms_HFTokenSecretName (ModelServer (Spec infScheduler))))
                        None,
          o_ReadyReplicas = 0\<rparr>)"

definition buildModelServerService :: "InferenceScheduler \<Rightarrow> object" where
  "buildModelServerService infScheduler =
     (let modelName = sanitizeName (ms_ModelName (ModelServer (Spec infScheduler)));
          labels = [''app'' \<mapsto> ''vllm'', ''model'' \<mapsto> modelName];
          port = getDefaultInt32 (Some (ms_Port (ModelServer (Spec infScheduler))))
                    defaultModelServerPort
      in \<lparr>o_APIVersion = ''v1'',
          o_Kind = ''Service'',
          o_Name = Name infScheduler @ ''-vllm'',
          o_Namespace = Namespace infScheduler,
          o_Labels = labels,
          o_ResourceVersion = [],
          o_OwnerReferences = [],
          o_Payload = ServicePayload labels [(''http'', port, sint port)] ''ClusterIP'',
          o_ReadyReplicas = 0\<rparr>)"

definition buildEPPServiceAccount :: "InferenceScheduler \<Rightarrow> object" where
  "buildEPPServiceAccount infScheduler =
     \<lparr>o_APIVersion = ''v1'',
      o_Kind = ''ServiceAccount'',
      o_Name = Name infScheduler @ ''-epp'',
      o_Namespace = Namespace infScheduler,
      o_Labels = Map.empty,
      o_ResourceVersion = [],
      o_OwnerReferences = [],
      o_Payload = ServiceAccountPayload,
      o_ReadyReplicas = 0\<rparr>"

definition buildEPPRole :: "InferenceScheduler \<Rightarrow> object" where
  "buildEPPRole infScheduler =
     \<lparr>o_APIVersion = ''rbac.authorization.k8s.io/v1'',
      o_Kind = ''Role'',
      o_Name = Name infScheduler @ ''-epp'',
      o_Namespace = Namespace infScheduler,
      o_Labels = Map.empty,
      o_ResourceVersion = [],
      o_OwnerReferences = [],
      o_Payload = RolePayload
        [([[]], [''pods''], [''get'', ''list'', ''watch'']),
         ([''inference.networking.k8s.io''], [''inferencepools''],
          [''get'', ''list'', ''watch''])],
      o_ReadyReplicas = 0\<rparr>"

definition buildEPPRoleBinding :: "InferenceScheduler \<Rightarrow> object" where
  "buildEPPRoleBinding infScheduler =
     \<lparr>o_APIVersion = ''rbac.authorization.k8s.io/v1'',
      o_Kind = ''RoleBinding'',
      o_Name = Name infScheduler @ ''-epp'',
      o_Namespace = Namespace infScheduler,
      o_Labels = Map.empty,
      o_ResourceVersion = [],
      o_OwnerReferences = [],
      o_Payload = RoleBindingPayload ''ServiceAccount'' (Name infScheduler @ ''-epp'')
                    (Namespace infScheduler) ''Role'' (Name infScheduler @ ''-epp''),
      o_ReadyReplicas = 0\<rparr>"

text \<open>
  The plugin configuration is YAML text assembled with \<^verbatim>\<open>fmt.Sprintf\<close>; the model keeps
  its pieces in order and leaves the line breaks and indentation out. Reading a Go map
  at a missing key gives the empty string.
\<close>

definition mapIndex :: "(string \<rightharpoonup> string) \<Rightarrow> string \<Rightarrow> string" where
  "mapIndex m k = (case m k of None \<Rightarrow> [] | Some v \<Rightarrow> v)"

definition buildEPPConfigMap :: "InferenceScheduler \<Rightarrow> object" where
  "buildEPPConfigMap infScheduler =
     (let plugins = epp_Plugins (EndpointPicker (Spec infScheduler));
          pluginConfig =
            [Arg ''apiVersion: inference.networking.x-k8s.io/v1alpha1'',
             Arg ''kind: EndpointPickerConfig'',
             Arg ''plugins:''];
          pluginConfig =
            (case LoadAwareScorer plugins of
               None \<Rightarrow> pluginConfig
             | Some scorer \<Rightarrow>
                 if Enabled scorer
                 then (let weight = getDefaultFloat64 (Weight scorer) 1
                       in pluginConfig @
                          [Arg ''- type: load-aware-scorer'',
                           Sprintf_f ''weight: '' weight,
                           Arg ''parameters:'',
                           Arg (''queueThreshold: '' @ getDefaultString
                             (mapIndex (Parameters scorer) ''queueThreshold'') ''128'')])
                 else pluginConfig);
          pluginConfig =
            (case PrefixCacheScorer plugins of
               None \<Rightarrow> pluginConfig
             | Some scorer \<Rightarrow>
                 if Enabled scorer
                 then (let weight = getDefaultFloat64 (Weight scorer) 2
                       in pluginConfig @
                          [Arg ''- type: prefix-cache-scorer'',
                           Sprintf_f ''weight: '' weight,
                           Arg ''parameters:'',
                           Arg (''cacheHitBonus: '' @ getDefaultString
                             (mapIndex (Parameters scorer) ''cacheHitBonus'') ''1.0'')])
                 else pluginConfig);
          pluginConfig =
            (case KVCacheUtilizationScorer plugins of
               None \<Rightarrow> pluginConfig
             | Some scorer \<Rightarrow>
                 if Enabled scorer
                 then (let weight = getDefaultFloat64 (Weight scorer) 1
                       in pluginConfig @
                          [Arg ''- type: kv-cache-utilization-scorer'',
                           Sprintf_f ''weight: '' weight])
                 else pluginConfig)
      in \<lparr>o_APIVersion = ''v1'',
          o_Kind = ''ConfigMap'',
          o_Name = Name infScheduler @ ''-epp-config'',
          o_Namespace = Namespace infScheduler,
          o_Labels = Map.empty,
          o_ResourceVersion = [],
          o_OwnerReferences = [],
          o_Payload = ConfigMapPayload [(''plugins.yaml'', pluginConfig)],
          o_ReadyReplicas = 0\<rparr>)"

definition buildEPPDeployment :: "InferenceScheduler \<Rightarrow> object" where
  "buildEPPDeployment infScheduler =
     (let labels = [''app'' \<mapsto> ''epp'',
                    ''app.kubernetes.io/name'' \<mapsto> ''endpoint-picker'',
                    ''app.kubernetes.io/instance'' \<mapsto> Name infScheduler,
                    ''app.kubernetes.io/component'' \<mapsto> ''routing''];
          replicas = getDefaultInt32
                       (Some (epp_Replicas (EndpointPicker (Spec infScheduler)))) 1;
          image = getDefaultString (epp_Image (EndpointPicker (Spec infScheduler)))
                    defaultEPPImage;
          grpcPort = getDefaultInt32
                       (Some (epp_GRPCPort (EndpointPicker (Spec infScheduler))))
                       defaultEPPGRPCPort
      in \<lparr>o_APIVersion = ''apps/v1'',
          o_Kind = ''Deployment'',
          o_Name = Name infScheduler @ ''-epp'',
          o_Namespace = Namespace infScheduler,
          o_Labels = labels,
          o_ResourceVersion = [],
          o_OwnerReferences = [],
          o_Payload = DeploymentPayload (Some replicas) labels labels
                        (Name infScheduler @ ''-epp'') ''epp'' image
                        [Arg (''--pool-name='' @ Name infScheduler @ ''-pool''),
                         Arg (''--pool-namespace='' @ Namespace infScheduler),
                         Sprintf_d ''--grpc-port='' grpcPort,
                         Arg ''--grpc-health-port=9003'',
                         Arg ''--config-file=/config/plugins.yaml'',
                         Arg ''--v=2'']
                        [(''grpc'', grpcPort), (''health'', 9003), (''metrics'', 9090)]
                        (epp_Resources (EndpointPicker (Spec infScheduler)))
                        None
                        (Some (Name infScheduler @ ''-epp-config'')),
          o_ReadyReplicas = 0\<rparr>)"

definition buildEPPService :: "InferenceScheduler \<Rightarrow> object" where
  "buildEPPService infScheduler =
     (let labels = [''app'' \<mapsto> ''epp''];
          grpcPort = getDefaultInt32
                       (Some (epp_GRPCPort (EndpointPicker (Spec infScheduler))))
                       defaultEPPGRPCPort
      in \<lparr>o_APIVersion = ''v1'',
          o_Kind = ''Service'',
          o_Name = Name infScheduler @ ''-epp'',
          o_Namespace = Namespace infScheduler,
          o_Labels = labels,
          o_ResourceVersion = [],
          o_OwnerReferences = [],
          o_Payload = ServicePayload labels
                        [(''grpc'', grpcPort, sint grpcPort),
                         (''health'', 9003, 9003),
                         (''metrics'', 9090, 9090)] ''ClusterIP'',
          o_ReadyReplicas = 0\<rparr>)"

definition buildInferencePool :: "InferenceScheduler \<Rightarrow> object" where
  "buildInferencePool infScheduler =
     (let modelName = sanitizeName (ms_ModelName (ModelServer (Spec infScheduler)));
          labels = [''app'' \<mapsto> ''vllm'', ''model'' \<mapsto> modelName];
          grpcPort = getDefaultInt32
                       (Some (epp_GRPCPort (EndpointPicker (Spec infScheduler))))
                       defaultEPPGRPCPort;
          modelServerPort = getDefaultInt32
                       (Some (ms_Port (ModelServer (Spec infScheduler))))
                       defaultModelServerPort
      in \<lparr>o_APIVersion = ''inference.networking.k8s.io/v1'',
          o_Kind = ''InferencePool'',
          o_Name = Name infScheduler @ ''-pool'',
          o_Namespace = Namespace infScheduler,
          o_Labels = Map.empty,
          o_ResourceVersion = [],
          o_OwnerReferences = [],
          o_Payload = InferencePoolPayload labels modelServerPort
                        (Name infScheduler @ ''-epp'') grpcPort ''FailOpen'',
          o_ReadyReplicas = 0\<rparr>)"

definition buildGateway :: "InferenceScheduler \<Rightarrow> object" where
  "buildGateway infScheduler =
     (let className = getDefaultString (gw_ClassName (Gateway (Spec infScheduler)))
                        ''kgateway'';
          listenerPort = getDefaultInt32
                           (Some (gw_ListenerPort (Gateway (Spec infScheduler))))
                           defaultGatewayPort
      in \<lparr>o_APIVersion = ''gateway.networking.k8s.io/v1'',
          o_Kind = ''Gateway'',
          o_Name = Name infScheduler @ ''-gateway'',
          o_Namespace = Namespace infScheduler,
          o_Labels = Map.empty,
          o_ResourceVersion = [],
          o_OwnerReferences = [],
          o_Payload = GatewayPayload className listenerPort,
          o_ReadyReplicas = 0\<rparr>)"

definition buildHTTPRoute :: "InferenceScheduler \<Rightarrow> object" where
  "buildHTTPRoute infScheduler =
     (let modelServerPort = getDefaultInt32
                       (Some (ms_Port (ModelServer (Spec infScheduler))))
                       defaultModelServerPort
      in \<lparr>o_APIVersion = ''gateway.networking.k8s.io/v1'',
          o_Kind = ''HTTPRoute'',
          o_Name = Name infScheduler @ ''-route'',
          o_Namespace = Namespace infScheduler,
          o_Labels = Map.empty,
          o_ResourceVersion = [],
          o_OwnerReferences = [],
          o_Payload = HTTPRoutePayload (Name infScheduler @ ''-gateway'')
                        (Namespace infScheduler) ''/v1/'' (Name infScheduler @ ''-pool'')
                        modelServerPort,
          o_ReadyReplicas = 0\<rparr>)"

subsection \<open>Library calls on an object's metadata\<close>

text \<open>
  Modelled from the spec: \<^verbatim>\<open>controllerutil.ContainsFinalizer\<close>, \<^verbatim>\<open>AddFinalizer\<close> and
  \<^verbatim>\<open>RemoveFinalizer\<close> belong to sigs.k8s.io/controller-runtime and are not under src/.
  The finalizer marker is present or absent (section 3): adding it to an object that
  has it changes nothing, removing it deletes every occurrence.
\<close>

definition ContainsFinalizer :: "InferenceScheduler \<Rightarrow> string \<Rightarrow> bool" where
  "ContainsFinalizer obj finalizer \<longleftrightarrow> finalizer \<in> set (Finalizers obj)"

definition AddFinalizer :: "InferenceScheduler \<Rightarrow> string \<Rightarrow> InferenceScheduler" where
  "AddFinalizer obj finalizer =
     (if finalizer \<in> set (Finalizers obj) then obj
      else obj\<lparr>Finalizers := Finalizers obj @ [finalizer]\<rparr>)"

definition RemoveFinalizer :: "InferenceScheduler \<Rightarrow> string \<Rightarrow> InferenceScheduler" where
  "RemoveFinalizer obj finalizer =
     obj\<lparr>Finalizers := filter (\<lambda>f. f \<noteq> finalizer) (Finalizers obj)\<rparr>"

text \<open>
  Modelled from the spec: \<^verbatim>\<open>ctrl.SetControllerReference\<close> belongs to
  sigs.k8s.io/controller-runtime and is not under src/. It attaches the owner relation
  (section 4.3) and is idempotent when the relation is already there; it refuses an
  owner in another namespace and an object that another controller owns, which is the
  error the callers test for.
\<close>

definition controllerRef :: "InferenceScheduler \<Rightarrow> OwnerReference" where
  "controllerRef owner =
     \<lparr>or_APIVersion = ''llm.llm-d.io/v1alpha1'',
      or_Kind = ''InferenceScheduler'',
      or_Name = Name owner,
      or_UID = UID owner,
      or_Controller = True,
      or_BlockOwnerDeletion = True\<rparr>"

definition referSameObject :: "OwnerReference \<Rightarrow> OwnerReference \<Rightarrow> bool" where
  "referSameObject a b \<longleftrightarrow>
     or_APIVersion a = or_APIVersion b \<and> or_Kind a = or_Kind b \<and> or_Name a = or_Name b"

fun upsertOwnerRef :: "OwnerReference \<Rightarrow> OwnerReference list \<Rightarrow> OwnerReference list" where
  "upsertOwnerRef ref [] = [ref]"
| "upsertOwnerRef ref (r # rs) =
     (if referSameObject r ref then ref # rs else r # upsertOwnerRef ref rs)"

definition SetControllerReference :: "InferenceScheduler \<Rightarrow> object \<Rightarrow> error + object" where
  "SetControllerReference owner controlled =
     (if Namespace owner \<noteq> [] \<and> o_Namespace controlled = []
      then Inl (OtherError
                  ''cluster-scoped resource must not have a namespace-scoped owner'')
      else if Namespace owner \<noteq> [] \<and> Namespace owner \<noteq> o_Namespace controlled
      then Inl (OtherError ''cross-namespace owner references are disallowed'')
      else (case filter or_Controller (o_OwnerReferences controlled) of
              existing # rest \<Rightarrow>
                if referSameObject existing (controllerRef owner)
                then Inr (controlled\<lparr>o_OwnerReferences :=
                       upsertOwnerRef (controllerRef owner) (o_OwnerReferences controlled)\<rparr>)
                else Inl (OtherError ''Object is already owned by another controller'')
            | [] \<Rightarrow>
                Inr (controlled\<lparr>o_OwnerReferences :=
                       upsertOwnerRef (controllerRef owner) (o_OwnerReferences controlled)\<rparr>)))"

subsection \<open>The API server as seen by one invocation\<close>

text \<open>
  The API server is outside the repository. One invocation of \<^verbatim>\<open>Reconcile\<close> sees it as
  the answers to its requests: the environment fixes the answer to the request issued
  when \<open>n\<close> requests have been issued before, whatever the store behind it does between
  two requests. The state threaded through the controller is the list of requests
  issued so far. A write that succeeds leaves the object held by the controller as it
  is (the server's copy differs in bookkeeping fields the controller never reads).
\<close>

datatype call =
    GetInferenceScheduler string string
  | Get string string string
  | Create object
  | Update object
  | UpdateInferenceScheduler InferenceScheduler
  | StatusUpdate InferenceScheduler
  | List string string string "nat option"

record env =
  getRootResp :: "nat \<Rightarrow> error + InferenceScheduler"
  getResp :: "nat \<Rightarrow> error + object"
  writeResp :: "nat \<Rightarrow> error option"
  listResp :: "nat \<Rightarrow> error + string list"
  clock :: "nat \<Rightarrow> time"

text \<open>\<^verbatim>\<open>r.Get\<close> on the root object; the request is (namespace, name).\<close>

definition r_GetInferenceScheduler ::
  "env \<Rightarrow> string \<times> string \<Rightarrow> call list \<Rightarrow> (error + InferenceScheduler) \<times> call list" where
  "r_GetInferenceScheduler e req tr =
     (getRootResp e (length tr), tr @ [GetInferenceScheduler (fst req) (snd req)])"

text \<open>\<^verbatim>\<open>r.Get\<close> on a child, by kind, namespace and name.\<close>

definition r_Get ::
  "env \<Rightarrow> string \<Rightarrow> string \<Rightarrow> string \<Rightarrow> call list \<Rightarrow> (error + object) \<times> call list" where
  "r_Get e kind namespace name tr =
     (getResp e (length tr), tr @ [Get kind namespace name])"

definition r_Create :: "env \<Rightarrow> object \<Rightarrow> call list \<Rightarrow> error option \<times> call list" where
  "r_Create e obj tr = (writeResp e (length tr), tr @ [Create obj])"

definition r_Update :: "env \<Rightarrow> object \<Rightarrow> call list \<Rightarrow> error option \<times> call list" where
  "r_Update e obj tr = (writeResp e (length tr), tr @ [Update obj])"

definition r_UpdateInferenceScheduler ::
  "env \<Rightarrow> InferenceScheduler \<Rightarrow> call list \<Rightarrow> error option \<times> call list" where
  "r_UpdateInferenceScheduler e obj tr =
     (writeResp e (length tr), tr @ [UpdateInferenceScheduler obj])"

definition r_StatusUpdate ::
  "env \<Rightarrow> InferenceScheduler \<Rightarrow> call list \<Rightarrow> error option \<times> call list" where
  "r_StatusUpdate e obj tr = (writeResp e (length tr), tr @ [StatusUpdate obj])"

text \<open>
  \<^verbatim>\<open>r.List\<close> of a group, version and kind with an optional limit; the answer is the names of
  the items.
\<close>

definition r_List ::
  "env \<Rightarrow> string \<Rightarrow> string \<Rightarrow> string \<Rightarrow> nat option \<Rightarrow> call list
     \<Rightarrow> (error + string list) \<times> call list" where
  "r_List e grp version kind limit tr =
     (listResp e (length tr), tr @ [List grp version kind limit])"

text \<open>\<^verbatim>\<open>ctrl.Result\<close>, with \<^verbatim>\<open>RequeueAfter\<close> in seconds, and what an invocation returns.\<close>

record Result =
  Requeue :: bool
  RequeueAfter :: nat

definition NoRequeue :: Result where
  "NoRequeue = \<lparr>Requeue = False, RequeueAfter = 0\<rparr>"

record outcome =
  result :: Result
  err :: "error option"
  calls :: "call list"

section \<open>The controller (inferencescheduler\_controller.go)\<close>

subsection \<open>createOrUpdate and createOrUpdateUnstructured\<close>

definition createOrUpdate ::
  "env \<Rightarrow> object \<Rightarrow> InferenceScheduler \<Rightarrow> call list \<Rightarrow> error option \<times> call list" where
  "createOrUpdate e obj owner tr =
     (let (r, tr1) = r_Get e (o_Kind obj) (o_Namespace obj) (o_Name obj) tr
      in case r of
           Inl er \<Rightarrow>
             if IsNotFound er
             then (case SetControllerReference owner obj of
                     Inl er' \<Rightarrow> (Some er', tr1)
                   | Inr obj' \<Rightarrow> r_Create e obj' tr1)
             else (Some er, tr1)
         | Inr existing \<Rightarrow>
             (let obj1 = obj\<lparr>o_ResourceVersion := o_ResourceVersion existing\<rparr>
              in case SetControllerReference owner obj1 of
                   Inl er' \<Rightarrow> (Some er', tr1)
                 | Inr obj2 \<Rightarrow> r_Update e obj2 tr1))"

text \<open>
  The unstructured variant differs in the Go type of the object it reads into (an empty
  \<^verbatim>\<open>Unstructured\<close> with the kind set instead of a deep copy); the steps are the same.
\<close>

definition createOrUpdateUnstructured ::
  "env \<Rightarrow> object \<Rightarrow> InferenceScheduler \<Rightarrow> call list \<Rightarrow> error option \<times> call list" where
  "createOrUpdateUnstructured e obj owner tr =
     (let (r, tr1) = r_Get e (o_Kind obj) (o_Namespace obj) (o_Name obj) tr
      in case r of
           Inl er \<Rightarrow>
             if IsNotFound er
             then (case SetControllerReference owner obj of
                     Inl er' \<Rightarrow> (Some er', tr1)
                   | Inr obj' \<Rightarrow> r_Create e obj' tr1)
             else (Some er, tr1)
         | Inr existing \<Rightarrow>
             (let obj1 = obj\<lparr>o_ResourceVersion := o_ResourceVersion existing\<rparr>
              in case SetControllerReference owner obj1 of
                   Inl er' \<Rightarrow> (Some er', tr1)
                 | Inr obj2 \<Rightarrow> r_Update e obj2 tr1))"

subsection \<open>isDeploymentReady\<close>

text \<open>
  \<^verbatim>\<open>Spec.Replicas\<close> of the deployment read back is a pointer; dereferencing nil panics.
\<close>

definition specReplicas :: "object \<Rightarrow> int32 option" where
  "specReplicas d =
     (case o_Payload d of
        DeploymentPayload replicas p1 p2 p3 p4 p5 p6 p7 p8 p9 p10 \<Rightarrow> replicas
      | _ \<Rightarrow> None)"

definition isDeploymentReady ::
  "env \<Rightarrow> string \<Rightarrow> string \<Rightarrow> call list \<Rightarrow> (error + bool) \<times> call list" where
  "isDeploymentReady e namespace name tr =
     (let (r, tr1) = r_Get e ''Deployment'' namespace name tr
      in case r of
           Inl er \<Rightarrow> (Inl er, tr1)
         | Inr deployment \<Rightarrow>
             (case specReplicas deployment of
                None \<Rightarrow> (Inl (Panic ''invalid memory address or nil pointer dereference''), tr1)
              | Some replicas \<Rightarrow> (Inr (o_ReadyReplicas deployment = replicas), tr1)))"

subsection \<open>validatePrerequisites\<close>

fun isPrefixOf :: "string \<Rightarrow> string \<Rightarrow> bool" where
  "isPrefixOf [] s = True"
| "isPrefixOf (c # cs) [] = False"
| "isPrefixOf (c # cs) (d # ds) = (c = d \<and> isPrefixOf cs ds)"

text \<open>\<^verbatim>\<open>strings.Contains(s, substr)\<close>.\<close>

fun strings_Contains :: "string \<Rightarrow> string \<Rightarrow> bool" where
  "strings_Contains [] substr = (substr = [])"
| "strings_Contains (c # cs) substr =
     (isPrefixOf substr (c # cs) \<or> strings_Contains cs substr)"

fun contains :: "string list \<Rightarrow> string \<Rightarrow> bool" where
  "contains [] substr = False"
| "contains (item # items) substr =
     (if strings_Contains item substr then True else contains items substr)"

text \<open>\<^verbatim>\<open>strings.Join(elems, sep)\<close>.\<close>

fun strings_Join :: "string list \<Rightarrow> string \<Rightarrow> string" where
  "strings_Join [] sep = []"
| "strings_Join [x] sep = x"
| "strings_Join (x # y # ys) sep = x @ sep @ strings_Join (y # ys) sep"

text \<open>The loop over the gateway classes listed, leaving at the first match.\<close>

fun findGatewayClass :: "string list \<Rightarrow> string \<Rightarrow> bool" where
  "findGatewayClass [] gatewayClassName = False"
| "findGatewayClass (item # items) gatewayClassName =
     (if item = gatewayClassName then True else findGatewayClass items gatewayClassName)"

definition missingGatewayAPI :: string where
  "missingGatewayAPI = ''Gateway API v1.3.0+ (install: kubectl apply -f https://github.com/kubernetes-sigs/gateway-api/releases/download/v1.3.0/standard-install.yaml)''"

definition missingHTTPRoute :: string where
  "missingHTTPRoute = ''Gateway API HTTPRoute CRD''"

definition missingGIE :: string where
  "missingGIE = ''Gateway API Inference Extension v1.1.0+ (install: kubectl apply -f https://github.com/kubernetes-sigs/gateway-api-inference-extension/releases/download/v1.1.0/manifests.yaml)''"

definition missingGatewayClassCRD :: string where
  "missingGatewayClassCRD = ''GatewayClass CRD''"

definition missingGatewayClass :: "string \<Rightarrow> string" where
  "missingGatewayClass gatewayClassName =
     ''GatewayClass '' @ [CHR 0x27] @ gatewayClassName @ [CHR 0x27]
       @ '' (install gateway implementation: kgateway, istio, or gke)''"

text \<open>
  The body of \<^verbatim>\<open>validatePrerequisites\<close> up to its last test: the four list requests and
  the list \<^verbatim>\<open>missingPrereqs\<close> they leave.
\<close>

definition collectMissingPrereqs ::
  "env \<Rightarrow> InferenceScheduler \<Rightarrow> call list \<Rightarrow> string list \<times> call list" where
  "collectMissingPrereqs e infScheduler tr =
     (let missingPrereqs = [];
          (r1, tr1) = r_List e ''gateway.networking.k8s.io'' ''v1'' ''Gateway'' (Some 1) tr;
          missingPrereqs =
            (case r1 of
               Inl er \<Rightarrow> if IsNoMatchError er then missingPrereqs @ [missingGatewayAPI]
                          else missingPrereqs
             | Inr items \<Rightarrow> missingPrereqs);
          (r2, tr2) = r_List e ''gateway.networking.k8s.io'' ''v1'' ''HTTPRoute'' (Some 1) tr1;
          missingPrereqs =
            (case r2 of
               Inl er \<Rightarrow> if IsNoMatchError er \<and> \<not> contains missingPrereqs ''Gateway API''
                          then missingPrereqs @ [missingHTTPRoute]
                          else missingPrereqs
             | Inr items \<Rightarrow> missingPrereqs);
          (r3, tr3) = r_List e ''inference.networking.k8s.io'' ''v1'' ''InferencePool''
                        (Some 1) tr2;
          missingPrereqs =
            (case r3 of
               Inl er \<Rightarrow> if IsNoMatchError er then missingPrereqs @ [missingGIE]
                          else missingPrereqs
             | Inr items \<Rightarrow> missingPrereqs);
          (r4, tr4) = r_List e ''gateway.networking.k8s.io'' ''v1'' ''GatewayClass'' None tr3;
          missingPrereqs =
            (case r4 of
               Inl er \<Rightarrow> if IsNoMatchError er then missingPrereqs @ [missingGatewayClassCRD]
                          else missingPrereqs
             | Inr items \<Rightarrow>
                 (let gatewayClassName =
                        getDefaultString (gw_ClassName (Gateway (Spec infScheduler)))
                          ''kgateway'';
                      found = findGatewayClass items gatewayClassName
                  in if \<not> found then missingPrereqs @ [missingGatewayClass gatewayClassName]
                     else missingPrereqs))
      in (missingPrereqs, tr4))"

definition validatePrerequisites ::
  "env \<Rightarrow> InferenceScheduler \<Rightarrow> call list \<Rightarrow> error option \<times> call list" where
  "validatePrerequisites e infScheduler tr =
     (let (missingPrereqs, tr') = collectMissingPrereqs e infScheduler tr
      in if length missingPrereqs > 0
         then (Some (OtherError
                 (''missing prerequisites: '' @ strings_Join missingPrereqs ''; ''
                  @ ''. See installation guide: https://github.com/aneeshkp/inference-scheduler-operator/blob/main/README.md#prerequisites'')),
               tr')
         else (None, tr'))"

subsection \<open>handleDeletion\<close>

definition handleDeletion :: "env \<Rightarrow> InferenceScheduler \<Rightarrow> call list \<Rightarrow> outcome" where
  "handleDeletion e infScheduler tr =
     (if \<not> ContainsFinalizer infScheduler finalizerName
      then \<lparr>result = NoRequeue, err = None, calls = tr\<rparr>
      else (let infScheduler = RemoveFinalizer infScheduler finalizerName;
                (r, tr1) = r_UpdateInferenceScheduler e infScheduler tr
            in case r of
                 Some er \<Rightarrow> \<lparr>result = NoRequeue, err = Some er, calls = tr1\<rparr>
               | None \<Rightarrow> \<lparr>result = NoRequeue, err = None, calls = tr1\<rparr>))"

subsection \<open>Reconcile\<close>

text \<open>
  \<^verbatim>\<open>Reconcile\<close> is one function with early returns. The model cuts it at the source's own
  phase comments, last phase first, each part taking the object in memory and the
  requests issued so far and ending in the return value of the invocation.
\<close>

definition failed :: "error \<Rightarrow> call list \<Rightarrow> outcome" where
  "failed er tr = \<lparr>result = NoRequeue, err = Some er, calls = tr\<rparr>"

definition requeueAfter :: "nat \<Rightarrow> call list \<Rightarrow> outcome" where
  "requeueAfter seconds tr =
     \<lparr>result = \<lparr>Requeue = False, RequeueAfter = seconds\<rparr>, err = None, calls = tr\<rparr>"

text \<open>Phase 7: Create Gateway and HTTPRoute, and the final status update.\<close>

definition reconcileGateway :: "env \<Rightarrow> InferenceScheduler \<Rightarrow> call list \<Rightarrow> outcome" where
  "reconcileGateway e infScheduler tr =
     (let gateway = buildGateway infScheduler;
          (r1, tr1) = createOrUpdateUnstructured e gateway infScheduler tr
      in case r1 of
           Some er \<Rightarrow>
             (let infScheduler = updateCondition infScheduler ''GatewayReady'' ConditionFalse
                                   ''CreationFailed'' (ErrorText er) (clock e (length tr1));
                  (r, tr2) = r_StatusUpdate e infScheduler tr1
              in failed er tr2)
         | None \<Rightarrow>
             (let httpRoute = buildHTTPRoute infScheduler;
                  (r2, tr2) = createOrUpdateUnstructured e httpRoute infScheduler tr1
              in case r2 of
                   Some er \<Rightarrow> failed er tr2
                 | None \<Rightarrow>
                     (let infScheduler = updateCondition infScheduler ''GatewayReady''
                            ConditionTrue ''Ready''
                            ''Gateway and HTTPRoute created successfully''
                            (clock e (length tr2));
                          infScheduler = infScheduler\<lparr>Status :=
                            (Status infScheduler)\<lparr>GatewayReady := True\<rparr>\<rparr>;
                          infScheduler = infScheduler\<lparr>Status :=
                            (Status infScheduler)\<lparr>Phase := ''Ready''\<rparr>\<rparr>;
                          (r3, tr3) = r_StatusUpdate e infScheduler tr2
                      in case r3 of
                           Some er \<Rightarrow> failed er tr3
                         | None \<Rightarrow> requeueAfter (5 * 60) tr3)))"

text \<open>Phase 6: Create InferencePool.\<close>

definition reconcileInferencePool ::
  "env \<Rightarrow> InferenceScheduler \<Rightarrow> call list \<Rightarrow> outcome" where
  "reconcileInferencePool e infScheduler tr =
     (let inferencePool = buildInferencePool infScheduler;
          (r1, tr1) = createOrUpdateUnstructured e inferencePool infScheduler tr
      in case r1 of
           Some er \<Rightarrow>
             (let infScheduler = updateCondition infScheduler ''InferencePoolReady''
                                   ConditionFalse ''CreationFailed'' (ErrorText er)
                                   (clock e (length tr1));
                  (r, tr2) = r_StatusUpdate e infScheduler tr1
              in failed er tr2)
         | None \<Rightarrow>
             (let infScheduler = updateCondition infScheduler ''InferencePoolReady''
                                   ConditionTrue ''Ready''
                                   ''InferencePool created successfully''
                                   (clock e (length tr1));
                  infScheduler = infScheduler\<lparr>Status :=
                    (Status infScheduler)\<lparr>InferencePoolReady := True\<rparr>\<rparr>
              in reconcileGateway e infScheduler tr1))"

text \<open>Phase 5: Deploy EPP.\<close>

definition reconcileEPP :: "env \<Rightarrow> InferenceScheduler \<Rightarrow> call list \<Rightarrow> outcome" where
  "reconcileEPP e infScheduler tr =
     (let sa = buildEPPServiceAccount infScheduler;
          (r1, tr1) = createOrUpdate e sa infScheduler tr
      in case r1 of
           Some er \<Rightarrow> failed er tr1
         | None \<Rightarrow>
      (let role = buildEPPRole infScheduler;
           (r2, tr2) = createOrUpdate e role infScheduler tr1
       in case r2 of
            Some er \<Rightarrow> failed er tr2
          | None \<Rightarrow>
      (let roleBinding = buildEPPRoleBinding infScheduler;
           (r3, tr3) = createOrUpdate e roleBinding infScheduler tr2
       in case r3 of
            Some er \<Rightarrow> failed er tr3
          | None \<Rightarrow>
      (let configMap = buildEPPConfigMap infScheduler;
           (r4, tr4) = createOrUpdate e configMap infScheduler tr3
       in case r4 of
            Some er \<Rightarrow> failed er tr4
          | None \<Rightarrow>
      (let eppDeployment = buildEPPDeployment infScheduler;
           (r5, tr5) = createOrUpdate e eppDeployment infScheduler tr4
       in case r5 of
            Some er \<Rightarrow>
              (let infScheduler = updateCondition infScheduler ''EPPReady'' ConditionFalse
                                    ''DeploymentFailed'' (ErrorText er) (clock e (length tr5));
                   (r, tr6) = r_StatusUpdate e infScheduler tr5
               in failed er tr6)
          | None \<Rightarrow>
      (let eppService = buildEPPService infScheduler;
           (r6, tr6) = createOrUpdate e eppService infScheduler tr5
       in case r6 of
            Some er \<Rightarrow> failed er tr6
          | None \<Rightarrow>
      (let (eppReady, tr7) = isDeploymentReady e (o_Namespace eppDeployment)
                               (o_Name eppDeployment) tr6
       in case eppReady of
            Inl er \<Rightarrow> failed er tr7
          | Inr ready \<Rightarrow>
              if \<not> ready
              then (let infScheduler = updateCondition infScheduler ''EPPReady''
                                         ConditionFalse ''NotReady''
                                         ''EPP pods are not ready yet''
                                         (clock e (length tr7));
                        infScheduler = infScheduler\<lparr>Status :=
                          (Status infScheduler)\<lparr>EPPReplicas := 0\<rparr>\<rparr>;
                        (r, tr8) = r_StatusUpdate e infScheduler tr7
                    in requeueAfter 30 tr8)
              else (let infScheduler = updateCondition infScheduler ''EPPReady''
                                         ConditionTrue ''Ready'' ''EPP is running''
                                         (clock e (length tr7));
                        infScheduler = infScheduler\<lparr>Status :=
                          (Status infScheduler)\<lparr>EPPReplicas :=
                             epp_Replicas (EndpointPicker (Spec infScheduler))\<rparr>\<rparr>
                    in reconcileInferencePool e infScheduler tr7))))))))"

text \<open>Phase 4: Deploy Model Server.\<close>

definition reconcileModelServer ::
  "env \<Rightarrow> InferenceScheduler \<Rightarrow> call list \<Rightarrow> outcome" where
  "reconcileModelServer e infScheduler tr =
     (let deployment = buildModelServerDeployment infScheduler;
          (r1, tr1) = createOrUpdate e deployment infScheduler tr
      in case r1 of
           Some er \<Rightarrow>
             (let infScheduler = updateCondition infScheduler ''ModelServerReady''
                                   ConditionFalse ''DeploymentFailed'' (ErrorText er)
                                   (clock e (length tr1));
                  (r, tr2) = r_StatusUpdate e infScheduler tr1
              in failed er tr2)
         | None \<Rightarrow>
      (let service = buildModelServerService infScheduler;
           (r2, tr2) = createOrUpdate e service infScheduler tr1
       in case r2 of
            Some er \<Rightarrow> failed er tr2
          | None \<Rightarrow>
      (let (ready, tr3) = isDeploymentReady e (o_Namespace deployment)
                            (o_Name deployment) tr2
       in case ready of
            Inl er \<Rightarrow> failed er tr3
          | Inr ready \<Rightarrow>
              if \<not> ready
              then (let infScheduler = updateCondition infScheduler ''ModelServerReady''
                                         ConditionFalse ''NotReady''
                                         ''Model server pods are not ready yet''
                                         (clock e (length tr3));
                        infScheduler = infScheduler\<lparr>Status :=
                          (Status infScheduler)\<lparr>ModelServerReplicas := 0\<rparr>\<rparr>;
                        (r, tr4) = r_StatusUpdate e infScheduler tr3
                    in requeueAfter 30 tr4)
              else (let infScheduler = updateCondition infScheduler ''ModelServerReady''
                                         ConditionTrue ''Ready''
                                         ''All model server pods are running''
                                         (clock e (length tr3));
                        infScheduler = infScheduler\<lparr>Status :=
                          (Status infScheduler)\<lparr>ModelServerReplicas :=
                             ms_Replicas (ModelServer (Spec infScheduler))\<rparr>\<rparr>
                    in reconcileEPP e infScheduler tr3))))"

text \<open>
  What the invocation does when validation has failed with error \<open>er\<close> (lines 114 to
  121), and what it does when validation has passed (lines 124 to 133, then phase 4).
\<close>

definition prerequisitesMissing ::
  "env \<Rightarrow> InferenceScheduler \<Rightarrow> error \<Rightarrow> call list \<Rightarrow> outcome" where
  "prerequisitesMissing e infScheduler er tr =
     (let infScheduler = infScheduler\<lparr>Status :=
            (Status infScheduler)\<lparr>PrerequisitesValidated := False\<rparr>\<rparr>;
          infScheduler = infScheduler\<lparr>Status :=
            (Status infScheduler)\<lparr>PrerequisiteMessage := ErrorText er\<rparr>\<rparr>;
          infScheduler = infScheduler\<lparr>Status :=
            (Status infScheduler)\<lparr>Phase := ''PrerequisitesMissing''\<rparr>\<rparr>;
          infScheduler = updateCondition infScheduler ''PrerequisitesValidated''
                           ConditionFalse ''ValidationFailed'' (ErrorText er)
                           (clock e (length tr));
          (r, tr1) = r_StatusUpdate e infScheduler tr
      in requeueAfter 60 tr1)"

definition prerequisitesValidated ::
  "env \<Rightarrow> InferenceScheduler \<Rightarrow> call list \<Rightarrow> outcome" where
  "prerequisitesValidated e infScheduler tr =
     (let infScheduler =
            (if \<not> PrerequisitesValidated (Status infScheduler)
             then (let infScheduler = infScheduler\<lparr>Status :=
                         (Status infScheduler)\<lparr>PrerequisitesValidated := True\<rparr>\<rparr>;
                       infScheduler = infScheduler\<lparr>Status :=
                         (Status infScheduler)\<lparr>PrerequisiteMessage :=
                            ''All prerequisites validated successfully''\<rparr>\<rparr>
                   in updateCondition infScheduler ''PrerequisitesValidated''
                        ConditionTrue ''Validated''
                        ''Gateway API, GIE, and GatewayClass are present''
                        (clock e (length tr)))
             else infScheduler);
          infScheduler = infScheduler\<lparr>Status :=
            (Status infScheduler)\<lparr>Phase := ''Deploying''\<rparr>\<rparr>;
          (r, tr1) = r_StatusUpdate e infScheduler tr
      in reconcileModelServer e infScheduler tr1)"

text \<open>Phase 1: Validate Prerequisites, and everything after it.\<close>

definition reconcilePrerequisites ::
  "env \<Rightarrow> InferenceScheduler \<Rightarrow> call list \<Rightarrow> outcome" where
  "reconcilePrerequisites e infScheduler tr =
     (let (r, tr1) = validatePrerequisites e infScheduler tr
      in case r of
           Some er \<Rightarrow> prerequisitesMissing e infScheduler er tr1
         | None \<Rightarrow> prerequisitesValidated e infScheduler tr1)"

text \<open>
  Lines 95 to 109: add the finalizer if it is not present, set the initial phase. The
  result is the error returned, or the object with which phase 1 starts.
\<close>

definition reconcileInitialize ::
  "env \<Rightarrow> InferenceScheduler \<Rightarrow> call list \<Rightarrow> (error + InferenceScheduler) \<times> call list" where
  "reconcileInitialize e infScheduler tr =
     (let (r1, infScheduler, tr1) =
            (if \<not> ContainsFinalizer infScheduler finalizerName
             then (let infScheduler = AddFinalizer infScheduler finalizerName;
                       (r, tr') = r_UpdateInferenceScheduler e infScheduler tr
                   in (r, infScheduler, tr'))
             else (None, infScheduler, tr))
      in case r1 of
           Some er \<Rightarrow> (Inl er, tr1)
         | None \<Rightarrow>
             if Phase (Status infScheduler) = []
             then (let infScheduler = infScheduler\<lparr>Status :=
                         (Status infScheduler)\<lparr>Phase := ''Initializing''\<rparr>\<rparr>;
                       (r2, tr2) = r_StatusUpdate e infScheduler tr1
                   in case r2 of
                        Some er \<Rightarrow> (Inl er, tr2)
                      | None \<Rightarrow> (Inr infScheduler, tr2))
             else (Inr infScheduler, tr1))"

text \<open>\<^verbatim>\<open>Reconcile\<close>: the request is (namespace, name) and no request has been issued yet.\<close>

definition Reconcile :: "env \<Rightarrow> string \<times> string \<Rightarrow> outcome" where
  "Reconcile e req =
     (let (r, tr1) = r_GetInferenceScheduler e req []
      in case r of
           Inl er \<Rightarrow>
             if IsNotFound er
             then \<lparr>result = NoRequeue, err = None, calls = tr1\<rparr>
             else failed er tr1
         | Inr infScheduler \<Rightarrow>
             if DeletionTimestamp infScheduler \<noteq> None
             then handleDeletion e infScheduler tr1
             else (let (r2, tr2) = reconcileInitialize e infScheduler tr1
                   in case r2 of
                        Inl er \<Rightarrow> failed er tr2
                      | Inr infScheduler \<Rightarrow> reconcilePrerequisites e infScheduler tr2))"

section \<open>Reading the requests of an invocation\<close>

text \<open>A request that reads or writes a child object.\<close>

fun childRequest :: "call \<Rightarrow> bool" where
  "childRequest (Get kind namespace name) = True"
| "childRequest (Create obj) = True"
| "childRequest (Update obj) = True"
| "childRequest c = False"

text \<open>
  Kind and name of the child a request creates, of the child a request creates or
  replaces, and the children of a root object by kind and name, in the order in which
  \<^verbatim>\<open>Reconcile\<close> upserts them.
\<close>

fun created :: "call \<Rightarrow> (string \<times> string) list" where
  "created (Create obj) = [(o_Kind obj, o_Name obj)]"
| "created c = []"

fun upserted :: "call \<Rightarrow> (string \<times> string) list" where
  "upserted (Create obj) = [(o_Kind obj, o_Name obj)]"
| "upserted (Update obj) = [(o_Kind obj, o_Name obj)]"
| "upserted c = []"


definition upserts :: "call list \<Rightarrow> (string \<times> string) list" where
  "upserts tr = concat (map upserted tr)"


section \<open>Concrete objects and environments\<close>

text \<open>
  A custom resource as a user would write it, and API servers that answer one
  invocation in a fixed way; they serve as the inputs at which the properties below are
  evaluated.
\<close>

definition notFound :: error where
  "notFound = NotFoundError ''not found''"

definition demo :: InferenceScheduler where
  "demo = \<lparr>Name = ''demo'', Namespace = ''default'', UID = ''uid-1'', Generation = 1,
     DeletionTimestamp = None, Finalizers = [],
     Spec = \<lparr>ModelServer = \<lparr>ms_Type = ''vllm'', ms_ModelName = ''Qwen/Qwen2-0.5B'',
                ms_Replicas = 1, ms_Image = [], ms_Resources = ([], []),
                ms_EnablePrefixCaching = True, ms_GPUMemoryUtilization = None,
                ms_HFTokenSecretName = ''hf-token'', ms_Port = 8000, ms_Labels = Map.empty\<rparr>,
             EndpointPicker = \<lparr>epp_Image = [], epp_Replicas = 1, epp_GRPCPort = 9002,
                epp_Plugins = \<lparr>LoadAwareScorer = None, PrefixCacheScorer = None,
                                KVCacheUtilizationScorer = None\<rparr>,
                epp_Resources = ([], [])\<rparr>,
             Gateway = \<lparr>gw_ClassName = ''kgateway'', gw_ListenerPort = 80,
                gw_ServiceType = ''ClusterIP'', gw_Name = []\<rparr>\<rparr>,
     Status = \<lparr>Conditions = [], Phase = [], ModelServerReplicas = 0, EPPReplicas = 0,
                GatewayReady = False, InferencePoolReady = False,
                PrerequisitesValidated = False, PrerequisiteMessage = []\<rparr>\<rparr>"

text \<open>The root object is gone.\<close>

definition envGone :: env where
  "envGone = \<lparr>getRootResp = (\<lambda>n. Inl notFound), getResp = (\<lambda>n. Inl notFound),
     writeResp = (\<lambda>n. None), listResp = (\<lambda>n. Inr []), clock = (\<lambda>n. n)\<rparr>"

text \<open>
  The root object marked for deletion in phase Ready with the finalizer on it, the same
  object once the finalizer is removed, and a server that returns a given root object.
\<close>

definition deleting :: InferenceScheduler where
  "deleting = demo\<lparr>DeletionTimestamp := Some 100,
     Finalizers := [finalizerName],
     Status := (Status demo)\<lparr>Phase := ''Ready''\<rparr>\<rparr>"

definition deleted :: InferenceScheduler where
  "deleted = deleting\<lparr>Finalizers := []\<rparr>"

definition envDeleting :: "InferenceScheduler \<Rightarrow> env" where
  "envDeleting obj = \<lparr>getRootResp = (\<lambda>n. Inr obj), getResp = (\<lambda>n. Inl notFound),
     writeResp = (\<lambda>n. None), listResp = (\<lambda>n. Inr []), clock = (\<lambda>n. n)\<rparr>"

text \<open>The root object after one condition has been set at time 5.\<close>

definition notReadyOnce :: InferenceScheduler where
  "notReadyOnce = updateCondition demo ''ModelServerReady'' ConditionFalse ''NotReady''
                    ''Model server pods are not ready yet'' 5"




text \<open>
  The root object asking for gateway class \<^verbatim>\<open>istio\<close>, the same object after the finalizer
  and the initial phase have been set, and a server on which every capability type is
  registered and \<^verbatim>\<open>kgateway\<close> is the only gateway class.
\<close>

definition istio :: InferenceScheduler where
  "istio = demo\<lparr>Spec := (Spec demo)\<lparr>Gateway := (Gateway (Spec demo))\<lparr>gw_ClassName := ''istio''\<rparr>\<rparr>\<rparr>"

definition istioInitialized :: InferenceScheduler where
  "istioInitialized = istio\<lparr>Finalizers := [finalizerName],
      Status := (Status istio)\<lparr>Phase := ''Initializing''\<rparr>\<rparr>"

definition envKgatewayOnly :: "InferenceScheduler \<Rightarrow> env" where
  "envKgatewayOnly obj = \<lparr>getRootResp = (\<lambda>n. Inr obj), getResp = (\<lambda>n. Inl notFound),
     writeResp = (\<lambda>n. None), listResp = (\<lambda>n. Inr [''kgateway'']), clock = (\<lambda>n. n)\<rparr>"


text \<open>The two deployments as the server returns them while no replica is ready.\<close>

definition notReadyVllm :: object where
  "notReadyVllm = (buildModelServerDeployment demo)\<lparr>o_ReadyReplicas := 0\<rparr>"

definition notReadyEPP :: object where
  "notReadyEPP = (buildEPPDeployment demo)\<lparr>o_ReadyReplicas := 0\<rparr>"

text \<open>A server that has no child yet, accepts every write, and answers request number \<open>k\<close> with \<open>d\<close>.\<close>

definition envProbe :: "nat \<Rightarrow> object \<Rightarrow> env" where
  "envProbe k d = \<lparr>getRootResp = (\<lambda>n. Inr demo),
     getResp = (\<lambda>n. if n = k then Inr d else Inl notFound),
     writeResp = (\<lambda>n. None),
     listResp = (\<lambda>n. Inr [''kgateway'']),
     clock = (\<lambda>n. n)\<rparr>"

text \<open>
  The model-server deployment as it exists on the server, with a resource version, and
  a server on which reading a child fails.
\<close>

definition existingVllm :: object where
  "existingVllm = (buildModelServerDeployment demo)\<lparr>o_ResourceVersion := ''42'',
      o_OwnerReferences := [controllerRef demo], o_ReadyReplicas := 1\<rparr>"

definition envReadFails :: env where
  "envReadFails = \<lparr>getRootResp = (\<lambda>n. Inr demo),
     getResp = (\<lambda>n. Inl (OtherError ''connection refused'')),
     writeResp = (\<lambda>n. None), listResp = (\<lambda>n. Inr [''kgateway'']), clock = (\<lambda>n. n)\<rparr>"

section \<open>Properties\<close>

lemma sanitizeName_length: "length (sanitizeName name) \<le> 63"
  by (simp add: sanitizeName_def Let_def)

lemma nameChar_replaceInvalid: "\<forall>c \<in> set (replaceInvalid s). nameChar c"
  by (auto simp: replaceInvalid_def nameChar_def)

lemma set_TrimHyphens: "set (TrimHyphens s) \<subseteq> set s"
proof -
  have "set (TrimHyphens s) \<subseteq> set (dropWhile isHyphen s)"
    unfolding TrimHyphens_def using set_dropWhileD by fastforce
  also have "\<dots> \<subseteq> set s"
    using set_dropWhileD by fastforce
  finally show ?thesis .
qed

lemma sanitizeName_chars: "\<forall>c \<in> set (sanitizeName name). nameChar c"
proof -
  have "set (sanitizeName name) \<subseteq> set (TrimHyphens (replaceInvalid (ToLower name)))"
    by (auto simp: sanitizeName_def Let_def dest: in_set_takeD)
  then show ?thesis
    using set_TrimHyphens nameChar_replaceInvalid by blast
qed

text \<open>
  C10. The output of \<^term>\<open>sanitizeName\<close> has at most 63 characters, all of them lower-case
  letters, digits or hyphens, but the cut at 63 comes after the trim: on 62 letters
  followed by \<^verbatim>\<open>-b\<close> the result ends in a hyphen, and sanitising it again removes that
  hyphen, so the function is not idempotent there.
\<close>

theorem sanitizeName_trailing_hyphen:
  "sanitizeName longName = replicate 62 (CHR ''a'') @ ''-''
   \<and> last (sanitizeName longName) = CHR ''-''
   \<and> sanitizeName (sanitizeName longName) = replicate 62 (CHR ''a'')
   \<and> sanitizeName (sanitizeName longName) \<noteq> sanitizeName longName"
proof -
  have lower: "ToLower longName = longName"
    by (simp add: ToLower_def longName_def toLowerChar_def)
  have repl: "replaceInvalid longName = longName"
    by (simp add: replaceInvalid_def longName_def nameChar_def)
  have trim: "TrimHyphens longName = longName"
    by (simp add: TrimHyphens_def longName_def isHyphen_def dropWhile_append)
  have len: "length longName = 64"
    by (simp add: longName_def)
  have first: "sanitizeName longName = replicate 62 (CHR ''a'') @ ''-''"
    unfolding sanitizeName_def Let_def lower repl trim
    by (simp add: len) (simp add: longName_def)
  let ?out = "replicate 62 (CHR ''a'') @ ''-''"
  have lower': "ToLower ?out = ?out"
    by (simp add: ToLower_def toLowerChar_def)
  have repl': "replaceInvalid ?out = ?out"
    by (simp add: replaceInvalid_def nameChar_def)
  have trim': "TrimHyphens ?out = replicate 62 (CHR ''a'')"
    by (simp add: TrimHyphens_def isHyphen_def dropWhile_append)
  have second: "sanitizeName ?out = replicate 62 (CHR ''a'')"
    unfolding sanitizeName_def Let_def lower' repl' trim' by simp
  have neq: "replicate 62 (CHR ''a'') \<noteq> ?out"
    by (metis length_append_singleton length_replicate n_not_Suc_n)
  show ?thesis
    using first second neq by simp
qed

subsection \<open>The root object is not found\<close>

text \<open>
  C8. When the read of the root object reports not-found, the invocation ends at once:
  no error, no requeue, and the read is the only request issued (no status write, no
  request on a child).
\<close>

theorem Reconcile_root_not_found:
  assumes "getRootResp e 0 = Inl er" and "IsNotFound er"
  shows "Reconcile e req =
           \<lparr>result = \<lparr>Requeue = False, RequeueAfter = 0\<rparr>, err = None,
            calls = [GetInferenceScheduler (fst req) (snd req)]\<rparr>"
  using assms by (simp add: Reconcile_def r_GetInferenceScheduler_def NoRequeue_def)

theorem Reconcile_root_not_found_witness:
  "getRootResp envGone 0 = Inl notFound \<and> IsNotFound notFound
   \<and> Reconcile envGone (''default'', ''demo'') =
        \<lparr>result = \<lparr>Requeue = False, RequeueAfter = 0\<rparr>, err = None,
         calls = [GetInferenceScheduler ''default'' ''demo'']\<rparr>"
  using Reconcile_root_not_found [of envGone notFound "(''default'', ''demo'')"]
  by (simp add: envGone_def notFound_def)

subsection \<open>Deletion\<close>

lemma Reconcile_deleting:
  "getRootResp e 0 = Inr sched \<Longrightarrow> DeletionTimestamp sched \<noteq> None \<Longrightarrow>
   Reconcile e req = handleDeletion e sched [GetInferenceScheduler (fst req) (snd req)]"
  by (auto simp add: Reconcile_def r_GetInferenceScheduler_def)

lemma RemoveFinalizer_gone: "\<not> ContainsFinalizer (RemoveFinalizer obj f) f"
  by (simp add: ContainsFinalizer_def RemoveFinalizer_def)

text \<open>
  C5. For an invocation on an object whose deletion marker is set: without the finalizer
  the handler issues nothing and returns success; with it, the handler removes the
  finalizer and persists the object in that invocation, the update of the root object
  being the only request after the read (no request on a child at all). No object
  written by such an invocation carries the finalizer, and a later invocation that reads
  the persisted object back does nothing, so the marker is never put back.
\<close>

theorem Reconcile_deletion:
  assumes "getRootResp e 0 = Inr sched" and "DeletionTimestamp sched \<noteq> None"
  shows "(\<not> ContainsFinalizer sched finalizerName \<longrightarrow>
            Reconcile e req =
              \<lparr>result = NoRequeue, err = None,
               calls = [GetInferenceScheduler (fst req) (snd req)]\<rparr>)
       \<and> (ContainsFinalizer sched finalizerName \<longrightarrow>
            Reconcile e req =
              \<lparr>result = NoRequeue, err = writeResp e 1,
               calls = [GetInferenceScheduler (fst req) (snd req),
                        UpdateInferenceScheduler (RemoveFinalizer sched finalizerName)]\<rparr>
            \<and> \<not> ContainsFinalizer (RemoveFinalizer sched finalizerName) finalizerName)
       \<and> (\<forall>obj. UpdateInferenceScheduler obj \<in> set (calls (Reconcile e req))
                 \<or> StatusUpdate obj \<in> set (calls (Reconcile e req))
              \<longrightarrow> \<not> ContainsFinalizer obj finalizerName)
       \<and> (\<forall>e'. getRootResp e' 0 = Inr (RemoveFinalizer sched finalizerName) \<longrightarrow>
              Reconcile e' req =
                \<lparr>result = NoRequeue, err = None,
                 calls = [GetInferenceScheduler (fst req) (snd req)]\<rparr>)"
proof -
  have eq: "Reconcile e req = handleDeletion e sched [GetInferenceScheduler (fst req) (snd req)]"
    using assms by (rule Reconcile_deleting)
  have absent: "\<not> ContainsFinalizer sched finalizerName \<longrightarrow>
            Reconcile e req =
              \<lparr>result = NoRequeue, err = None,
               calls = [GetInferenceScheduler (fst req) (snd req)]\<rparr>"
    by (simp add: eq handleDeletion_def)
  have present: "ContainsFinalizer sched finalizerName \<longrightarrow>
            Reconcile e req =
              \<lparr>result = NoRequeue, err = writeResp e 1,
               calls = [GetInferenceScheduler (fst req) (snd req),
                        UpdateInferenceScheduler (RemoveFinalizer sched finalizerName)]\<rparr>
            \<and> \<not> ContainsFinalizer (RemoveFinalizer sched finalizerName) finalizerName"
    by (simp add: eq handleDeletion_def r_UpdateInferenceScheduler_def Let_def
                  RemoveFinalizer_gone split: option.splits)
  have writes: "\<forall>obj. UpdateInferenceScheduler obj \<in> set (calls (Reconcile e req))
                 \<or> StatusUpdate obj \<in> set (calls (Reconcile e req))
              \<longrightarrow> \<not> ContainsFinalizer obj finalizerName"
  proof (cases "ContainsFinalizer sched finalizerName")
    case True
    then have "calls (Reconcile e req) =
        [GetInferenceScheduler (fst req) (snd req),
         UpdateInferenceScheduler (RemoveFinalizer sched finalizerName)]"
      using present by simp
    then show ?thesis by (simp add: RemoveFinalizer_gone)
  next
    case False
    then have "calls (Reconcile e req) = [GetInferenceScheduler (fst req) (snd req)]"
      using absent by simp
    then show ?thesis by simp
  qed
  have later: "\<forall>e'. getRootResp e' 0 = Inr (RemoveFinalizer sched finalizerName) \<longrightarrow>
              Reconcile e' req =
                \<lparr>result = NoRequeue, err = None,
                 calls = [GetInferenceScheduler (fst req) (snd req)]\<rparr>"
  proof (intro allI impI)
    fix e' :: env assume g: "getRootResp e' 0 = Inr (RemoveFinalizer sched finalizerName)"
    have d: "DeletionTimestamp (RemoveFinalizer sched finalizerName) \<noteq> None"
      using assms(2) by (simp add: RemoveFinalizer_def)
    show "Reconcile e' req =
                \<lparr>result = NoRequeue, err = None,
                 calls = [GetInferenceScheduler (fst req) (snd req)]\<rparr>"
      using Reconcile_deleting [OF g d, of req]
      by (simp add: handleDeletion_def RemoveFinalizer_gone)
  qed
  show ?thesis
    by (rule conjI [OF absent conjI [OF present conjI [OF writes later]]])
qed

theorem Reconcile_deletion_witness:
  "getRootResp (envDeleting deleting) 0 = Inr deleting
   \<and> DeletionTimestamp deleting \<noteq> None
   \<and> ContainsFinalizer deleting finalizerName
   \<and> Reconcile (envDeleting deleting) (''default'', ''demo'') =
       \<lparr>result = NoRequeue, err = None,
        calls = [GetInferenceScheduler ''default'' ''demo'',
                 UpdateInferenceScheduler deleted]\<rparr>
   \<and> getRootResp (envDeleting deleted) 0 = Inr deleted
   \<and> DeletionTimestamp deleted \<noteq> None
   \<and> \<not> ContainsFinalizer deleted finalizerName
   \<and> Reconcile (envDeleting deleted) (''default'', ''demo'') =
       \<lparr>result = NoRequeue, err = None,
        calls = [GetInferenceScheduler ''default'' ''demo'']\<rparr>"
proof -
  have g1: "getRootResp (envDeleting deleting) 0 = Inr deleting"
    and g2: "getRootResp (envDeleting deleted) 0 = Inr deleted"
    and w: "writeResp (envDeleting deleting) (Suc 0) = None"
    by (simp_all add: envDeleting_def)
  have d1: "DeletionTimestamp deleting \<noteq> None" and d2: "DeletionTimestamp deleted \<noteq> None"
    by (simp_all add: deleting_def deleted_def)
  have f1: "ContainsFinalizer deleting finalizerName"
    and f2: "\<not> ContainsFinalizer deleted finalizerName"
    by (simp_all add: ContainsFinalizer_def deleting_def deleted_def)
  have r: "RemoveFinalizer deleting finalizerName = deleted"
    by (simp add: RemoveFinalizer_def deleting_def deleted_def)
  show ?thesis
    using Reconcile_deletion [OF g1 d1, of "(''default'', ''demo'')"]
          Reconcile_deletion [OF g2 d2, of "(''default'', ''demo'')"]
          g1 g2 d1 d2 f1 f2
    by (simp add: r w)
qed

subsection \<open>Conditions\<close>

lemma FindStatusCondition_None: "FindStatusCondition cs t = None \<longleftrightarrow> t \<notin> c_Type ` set cs"
  by (induction cs) auto

lemma map_type_overwriteCondition: "map c_Type (overwriteCondition cs n) = map c_Type cs"
  by (induction cs) auto

lemma Find_overwriteCondition_other:
  "t' \<noteq> c_Type n \<Longrightarrow> FindStatusCondition (overwriteCondition cs n) t' = FindStatusCondition cs t'"
  by (induction cs) auto

lemma Find_overwriteCondition_same:
  "FindStatusCondition cs (c_Type n) = Some c \<Longrightarrow>
   FindStatusCondition (overwriteCondition cs n) (c_Type n) =
     Some (c\<lparr>c_Status := c_Status n,
             c_LastTransitionTime :=
               (if c_Status c \<noteq> c_Status n then c_LastTransitionTime n
                else c_LastTransitionTime c),
             c_Reason := c_Reason n,
             c_Message := c_Message n,
             c_ObservedGeneration := c_ObservedGeneration n\<rparr>)"
  by (induction cs) (auto split: if_splits)

lemma Find_append_new:
  "FindStatusCondition cs (c_Type n) = None \<Longrightarrow>
   FindStatusCondition (cs @ [n]) t' = (if t' = c_Type n then Some n else FindStatusCondition cs t')"
  by (induction cs) (auto split: if_splits)

lemma Find_type: "FindStatusCondition cs t = Some c \<Longrightarrow> c_Type c = t"
  by (induction cs) (auto split: if_splits)

lemma Find_SetStatusCondition_other:
  "t' \<noteq> c_Type n \<Longrightarrow> FindStatusCondition (SetStatusCondition cs n) t' = FindStatusCondition cs t'"
  by (simp add: SetStatusCondition_def Find_overwriteCondition_other Find_append_new
           split: option.splits)

lemma Find_SetStatusCondition_new:
  "FindStatusCondition cs (c_Type n) = None \<Longrightarrow>
   FindStatusCondition (SetStatusCondition cs n) (c_Type n) = Some n"
  by (simp add: SetStatusCondition_def Find_append_new)

lemma Find_SetStatusCondition_old:
  "FindStatusCondition cs (c_Type n) = Some c \<Longrightarrow>
   FindStatusCondition (SetStatusCondition cs n) (c_Type n) =
     Some (c\<lparr>c_Status := c_Status n,
             c_LastTransitionTime :=
               (if c_Status c \<noteq> c_Status n then c_LastTransitionTime n
                else c_LastTransitionTime c),
             c_Reason := c_Reason n,
             c_Message := c_Message n,
             c_ObservedGeneration := c_ObservedGeneration n\<rparr>)"
  by (simp add: SetStatusCondition_def Find_overwriteCondition_same)

lemma distinct_SetStatusCondition:
  "distinct (map c_Type cs) \<Longrightarrow> distinct (map c_Type (SetStatusCondition cs n))"
  by (auto simp: SetStatusCondition_def map_type_overwriteCondition FindStatusCondition_None
           split: option.splits)

lemma Conditions_updateCondition:
  "Conditions (Status (updateCondition sched t st r m now)) =
     SetStatusCondition (Conditions (Status sched))
       \<lparr>c_Type = t, c_Status = st, c_ObservedGeneration = Generation sched,
        c_LastTransitionTime = now, c_Reason = r, c_Message = m\<rparr>"
  by (simp add: updateCondition_def)

lemma Generation_updateCondition [simp]:
  "Generation (updateCondition sched t st r m now) = Generation sched"
  by (simp add: updateCondition_def)

lemma Find_updateCondition:
  "FindStatusCondition (Conditions (Status (updateCondition sched t st r m now))) t =
     (case FindStatusCondition (Conditions (Status sched)) t of
        None \<Rightarrow> Some \<lparr>c_Type = t, c_Status = st, c_ObservedGeneration = Generation sched,
                      c_LastTransitionTime = now, c_Reason = r, c_Message = m\<rparr>
      | Some c \<Rightarrow> Some (c\<lparr>c_Status := st,
             c_LastTransitionTime :=
               (if c_Status c \<noteq> st then now else c_LastTransitionTime c),
             c_Reason := r, c_Message := m, c_ObservedGeneration := Generation sched\<rparr>))"
proof (cases "FindStatusCondition (Conditions (Status sched)) t")
  case None
  then show ?thesis
    using Find_SetStatusCondition_new [of "Conditions (Status sched)"
      "\<lparr>c_Type = t, c_Status = st, c_ObservedGeneration = Generation sched,
        c_LastTransitionTime = now, c_Reason = r, c_Message = m\<rparr>"]
    by (simp add: Conditions_updateCondition)
next
  case (Some c)
  then show ?thesis
    using Find_SetStatusCondition_old [of "Conditions (Status sched)"
      "\<lparr>c_Type = t, c_Status = st, c_ObservedGeneration = Generation sched,
        c_LastTransitionTime = now, c_Reason = r, c_Message = m\<rparr>" c]
    by (simp add: Conditions_updateCondition)
qed

text \<open>
  C7. Setting a condition is an upsert keyed by the condition type: a list without
  duplicate types stays without duplicates, the entry of that type then has the status,
  reason and message given, and the entries of other types are as before. Setting the
  same type a second time with the same status changes the reason and the message of
  the entry and nothing else, so the first last-transition-time stays; the
  last-transition-time of an existing entry changes only if the status does.
\<close>

theorem updateCondition_upsert:
  "(distinct (map c_Type (Conditions (Status sched))) \<longrightarrow>
      distinct (map c_Type (Conditions (Status (updateCondition sched t st r1 m1 now1)))))
   \<and> (\<exists>c. FindStatusCondition (Conditions (Status (updateCondition sched t st r1 m1 now1))) t
            = Some c
          \<and> c_Type c = t \<and> c_Status c = st \<and> c_Reason c = r1 \<and> c_Message c = m1)
   \<and> (\<forall>t'. t' \<noteq> t \<longrightarrow>
         FindStatusCondition (Conditions (Status (updateCondition sched t st r1 m1 now1))) t'
           = FindStatusCondition (Conditions (Status sched)) t')
   \<and> (\<forall>c1. FindStatusCondition (Conditions (Status (updateCondition sched t st r1 m1 now1))) t
              = Some c1 \<longrightarrow>
         FindStatusCondition (Conditions (Status
             (updateCondition (updateCondition sched t st r1 m1 now1) t st r2 m2 now2))) t
           = Some (c1\<lparr>c_Reason := r2, c_Message := m2\<rparr>))
   \<and> (\<forall>c c'. FindStatusCondition (Conditions (Status sched)) t = Some c
         \<and> FindStatusCondition (Conditions (Status (updateCondition sched t st r1 m1 now1))) t
              = Some c'
         \<and> c_LastTransitionTime c' \<noteq> c_LastTransitionTime c \<longrightarrow> c_Status c \<noteq> st)"
proof (intro conjI allI impI)
  assume "distinct (map c_Type (Conditions (Status sched)))"
  then show "distinct (map c_Type (Conditions (Status (updateCondition sched t st r1 m1 now1))))"
    by (simp add: Conditions_updateCondition distinct_SetStatusCondition)
next
  show "\<exists>c. FindStatusCondition (Conditions (Status (updateCondition sched t st r1 m1 now1))) t
            = Some c
          \<and> c_Type c = t \<and> c_Status c = st \<and> c_Reason c = r1 \<and> c_Message c = m1"
    by (cases "FindStatusCondition (Conditions (Status sched)) t")
       (simp_all add: Find_updateCondition Find_type)
next
  fix t' assume "t' \<noteq> t"
  then show "FindStatusCondition (Conditions (Status (updateCondition sched t st r1 m1 now1))) t'
           = FindStatusCondition (Conditions (Status sched)) t'"
    by (simp add: Conditions_updateCondition Find_SetStatusCondition_other)
next
  fix c1
  assume "FindStatusCondition (Conditions (Status (updateCondition sched t st r1 m1 now1))) t
              = Some c1"
  then show "FindStatusCondition (Conditions (Status
             (updateCondition (updateCondition sched t st r1 m1 now1) t st r2 m2 now2))) t
           = Some (c1\<lparr>c_Reason := r2, c_Message := m2\<rparr>)"
    by (cases "FindStatusCondition (Conditions (Status sched)) t")
       (auto simp add: Find_updateCondition [of "updateCondition sched t st r1 m1 now1"]
                  Find_updateCondition [of sched])
next
  fix c c'
  assume "FindStatusCondition (Conditions (Status sched)) t = Some c
         \<and> FindStatusCondition (Conditions (Status (updateCondition sched t st r1 m1 now1))) t
              = Some c'
         \<and> c_LastTransitionTime c' \<noteq> c_LastTransitionTime c"
  then show "c_Status c \<noteq> st"
    by (auto simp add: Find_updateCondition)
qed

theorem updateCondition_upsert_witness:
  "distinct (map c_Type (Conditions (Status demo)))
   \<and> distinct (map c_Type (Conditions (Status notReadyOnce)))
   \<and> FindStatusCondition (Conditions (Status notReadyOnce)) ''ModelServerReady''
        = Some \<lparr>c_Type = ''ModelServerReady'', c_Status = ConditionFalse,
                c_ObservedGeneration = 1, c_LastTransitionTime = 5,
                c_Reason = ''NotReady'',
                c_Message = ''Model server pods are not ready yet''\<rparr>
   \<and> FindStatusCondition (Conditions (Status
          (updateCondition notReadyOnce ''ModelServerReady'' ConditionFalse ''DeploymentFailed''
             ''conflict'' 9))) ''ModelServerReady''
        = Some \<lparr>c_Type = ''ModelServerReady'', c_Status = ConditionFalse,
                c_ObservedGeneration = 1, c_LastTransitionTime = 5,
                c_Reason = ''DeploymentFailed'', c_Message = ''conflict''\<rparr>
   \<and> ''EPPReady'' \<noteq> ''ModelServerReady''
   \<and> FindStatusCondition (Conditions (Status notReadyOnce)) ''EPPReady'' = None
   \<and> FindStatusCondition (Conditions (Status
          (updateCondition notReadyOnce ''ModelServerReady'' ConditionTrue ''Ready''
             ''All model server pods are running'' 9))) ''ModelServerReady''
        = Some \<lparr>c_Type = ''ModelServerReady'', c_Status = ConditionTrue,
                c_ObservedGeneration = 1, c_LastTransitionTime = 9,
                c_Reason = ''Ready'', c_Message = ''All model server pods are running''\<rparr>
   \<and> ConditionFalse \<noteq> ConditionTrue"
proof -
  have c0: "Conditions (Status demo) = []"
    by (simp add: demo_def)
  have g: "Generation demo = 1"
    by (simp add: demo_def)
  have c1: "Conditions (Status notReadyOnce) =
      [\<lparr>c_Type = ''ModelServerReady'', c_Status = ConditionFalse,
        c_ObservedGeneration = 1, c_LastTransitionTime = 5,
        c_Reason = ''NotReady'',
        c_Message = ''Model server pods are not ready yet''\<rparr>]"
    by (simp add: notReadyOnce_def Conditions_updateCondition c0 g SetStatusCondition_def)
  have g1: "Generation notReadyOnce = 1"
    by (simp add: notReadyOnce_def g)
  have c2: "Conditions (Status
          (updateCondition notReadyOnce ''ModelServerReady'' ConditionTrue ''Ready''
             ''All model server pods are running'' 9)) =
      [\<lparr>c_Type = ''ModelServerReady'', c_Status = ConditionTrue,
                c_ObservedGeneration = 1, c_LastTransitionTime = 9,
                c_Reason = ''Ready'', c_Message = ''All model server pods are running''\<rparr>]"
    by (simp add: Conditions_updateCondition c1 g1 SetStatusCondition_def)
  show ?thesis
    using updateCondition_upsert [of demo "''ModelServerReady''" ConditionFalse "''NotReady''"
            "''Model server pods are not ready yet''" 5 "''DeploymentFailed''" "''conflict''" 9]
          updateCondition_upsert [of notReadyOnce "''ModelServerReady''" ConditionTrue "''Ready''"
            "''All model server pods are running''" 9 "''Ready''" "''ok''" 10]
    unfolding notReadyOnce_def [symmetric]
    by (simp add: c0 c1 c2)
qed

subsection \<open>Defaults in the builders\<close>



subsection \<open>Prerequisite validation\<close>

lemma contains_GatewayAPI: "strings_Contains missingGatewayAPI ''Gateway API''"
  by (simp add: missingGatewayAPI_def)

lemma collectMissingPrereqs_calls:
  "snd (collectMissingPrereqs e sched tr) =
     tr @ [List ''gateway.networking.k8s.io'' ''v1'' ''Gateway'' (Some 1),
           List ''gateway.networking.k8s.io'' ''v1'' ''HTTPRoute'' (Some 1),
           List ''inference.networking.k8s.io'' ''v1'' ''InferencePool'' (Some 1),
           List ''gateway.networking.k8s.io'' ''v1'' ''GatewayClass'' None]"
  by (simp add: collectMissingPrereqs_def r_List_def Let_def split: prod.splits)


lemma collectMissingPrereqs_fst:
  "fst (collectMissingPrereqs e sched tr) =
     (case listResp e (length tr) of
        Inl er \<Rightarrow> if IsNoMatchError er then [missingGatewayAPI] else []
      | Inr items \<Rightarrow> [])
     @ (case listResp e (Suc (length tr)) of
          Inl er \<Rightarrow>
            if IsNoMatchError er
               \<and> \<not> (case listResp e (length tr) of
                        Inl er0 \<Rightarrow> IsNoMatchError er0 | Inr items \<Rightarrow> False)
            then [missingHTTPRoute] else []
        | Inr items \<Rightarrow> [])
     @ (case listResp e (Suc (Suc (length tr))) of
          Inl er \<Rightarrow> if IsNoMatchError er then [missingGIE] else []
        | Inr items \<Rightarrow> [])
     @ (case listResp e (Suc (Suc (Suc (length tr)))) of
          Inl er \<Rightarrow> if IsNoMatchError er then [missingGatewayClassCRD] else []
        | Inr items \<Rightarrow>
            if findGatewayClass items
                 (getDefaultString (gw_ClassName (Gateway (Spec sched))) ''kgateway'')
            then []
            else [missingGatewayClass
                    (getDefaultString (gw_ClassName (Gateway (Spec sched))) ''kgateway'')])"
  by (simp add: collectMissingPrereqs_def r_List_def Let_def contains_GatewayAPI
           split: prod.splits sum.splits)






lemma reconcileInitialize_calls:
  "\<exists>ws. snd (reconcileInitialize e s tr) = tr @ ws \<and> (\<forall>c \<in> set ws. \<not> childRequest c)"
  by (simp add: reconcileInitialize_def r_UpdateInferenceScheduler_def r_StatusUpdate_def
        Let_def split: option.splits)

lemma Status_updateCondition:
  "Status (updateCondition s t st r m now) =
     (Status s)\<lparr>Conditions := Conditions (Status (updateCondition s t st r m now))\<rparr>"
  by (simp add: updateCondition_def)

lemma updateCondition_Status_fields [simp]:
  "Phase (Status (updateCondition s t st r m now)) = Phase (Status s)"
  "PrerequisiteMessage (Status (updateCondition s t st r m now)) = PrerequisiteMessage (Status s)"
  "PrerequisitesValidated (Status (updateCondition s t st r m now))
     = PrerequisitesValidated (Status s)"
  "ModelServerReplicas (Status (updateCondition s t st r m now)) = ModelServerReplicas (Status s)"
  "EPPReplicas (Status (updateCondition s t st r m now)) = EPPReplicas (Status s)"
  "Name (updateCondition s t st r m now) = Name s"
  "Namespace (updateCondition s t st r m now) = Namespace s"
  "Spec (updateCondition s t st r m now) = Spec s"
  by (simp_all add: updateCondition_def)

lemma Find_updateCondition_status:
  "\<exists>c. FindStatusCondition (Conditions (Status (updateCondition s t st r m now))) t = Some c
       \<and> c_Status c = st \<and> c_Reason c = r \<and> c_Message c = m"
  by (cases "FindStatusCondition (Conditions (Status s)) t")
     (simp_all add: Find_updateCondition)

text \<open>
  C1. When an invocation reaches prerequisite validation and validation reports at least
  one missing prerequisite, the invocation returns a 60-second requeue with no error;
  its last request is a status update carrying phase PrerequisitesMissing, the list of
  missing prerequisites in the status message, the flag PrerequisitesValidated false and
  a PrerequisitesValidated condition with status False; and no request of the whole
  invocation reads or writes a child object.
\<close>

theorem Reconcile_prerequisites_missing:
  assumes root: "getRootResp e 0 = Inr sched0"
    and live: "DeletionTimestamp sched0 = None"
    and init: "reconcileInitialize e sched0 [GetInferenceScheduler (fst req) (snd req)]
                 = (Inr sched, tr)"
    and probes: "collectMissingPrereqs e sched tr = (missing, tr')"
    and missing: "missing \<noteq> []"
  shows "result (Reconcile e req) = \<lparr>Requeue = False, RequeueAfter = 60\<rparr>
       \<and> err (Reconcile e req) = None
       \<and> (\<exists>sched'. calls (Reconcile e req) = tr' @ [StatusUpdate sched']
            \<and> Phase (Status sched') = ''PrerequisitesMissing''
            \<and> PrerequisiteMessage (Status sched') =
                ''missing prerequisites: '' @ strings_Join missing ''; ''
                @ ''. See installation guide: https://github.com/aneeshkp/inference-scheduler-operator/blob/main/README.md#prerequisites''
            \<and> \<not> PrerequisitesValidated (Status sched')
            \<and> (\<exists>c. FindStatusCondition (Conditions (Status sched'))
                       ''PrerequisitesValidated'' = Some c
                   \<and> c_Status c = ConditionFalse
                   \<and> c_Message c = PrerequisiteMessage (Status sched')))
       \<and> (\<forall>c \<in> set (calls (Reconcile e req)). \<not> childRequest c)"
proof -
  define msg where "msg = ''missing prerequisites: '' @ strings_Join missing ''; ''
                @ ''. See installation guide: https://github.com/aneeshkp/inference-scheduler-operator/blob/main/README.md#prerequisites''"
  define s1 where "s1 = sched\<lparr>Status := (Status sched)\<lparr>PrerequisitesValidated := False,
                 PrerequisiteMessage := msg, Phase := ''PrerequisitesMissing''\<rparr>\<rparr>"
  define s2 where "s2 = updateCondition s1 ''PrerequisitesValidated'' ConditionFalse
               ''ValidationFailed'' msg (clock e (length tr'))"
  have v: "validatePrerequisites e sched tr = (Some (OtherError msg), tr')"
    using probes missing by (simp add: validatePrerequisites_def msg_def)
  have r1: "Reconcile e req = reconcilePrerequisites e sched tr"
    using root live init by (simp add: Reconcile_def r_GetInferenceScheduler_def)
  have r2: "Reconcile e req = requeueAfter 60 (tr' @ [StatusUpdate s2])"
    unfolding r1 by (simp add: reconcilePrerequisites_def v prerequisitesMissing_def
                        r_StatusUpdate_def Let_def s2_def s1_def)
  have res: "result (Reconcile e req) = \<lparr>Requeue = False, RequeueAfter = 60\<rparr>"
    and er: "err (Reconcile e req) = None"
    and cs: "calls (Reconcile e req) = tr' @ [StatusUpdate s2]"
    unfolding r2 by (simp_all add: requeueAfter_def)
  have obj: "Phase (Status s2) = ''PrerequisitesMissing''"
    "PrerequisiteMessage (Status s2) = msg"
    "\<not> PrerequisitesValidated (Status s2)"
    by (simp_all add: s2_def s1_def)
  obtain c where c: "FindStatusCondition (Conditions (Status s2)) ''PrerequisitesValidated''
                    = Some c" "c_Status c = ConditionFalse" "c_Message c = msg"
    using Find_updateCondition_status [of s1 "''PrerequisitesValidated''" ConditionFalse
            "''ValidationFailed''" msg "clock e (length tr')"]
    unfolding s2_def by blast
  obtain ws where ws: "tr = [GetInferenceScheduler (fst req) (snd req)] @ ws"
      "\<forall>c \<in> set ws. \<not> childRequest c"
    using reconcileInitialize_calls [of e sched0 "[GetInferenceScheduler (fst req) (snd req)]"]
      init by auto
  have tr': "tr' = tr @ [List ''gateway.networking.k8s.io'' ''v1'' ''Gateway'' (Some 1),
           List ''gateway.networking.k8s.io'' ''v1'' ''HTTPRoute'' (Some 1),
           List ''inference.networking.k8s.io'' ''v1'' ''InferencePool'' (Some 1),
           List ''gateway.networking.k8s.io'' ''v1'' ''GatewayClass'' None]"
    using collectMissingPrereqs_calls [of e sched tr] probes by simp
  have nochild: "\<forall>c \<in> set (calls (Reconcile e req)). \<not> childRequest c"
    unfolding cs tr' using ws by auto
  have ex: "\<exists>sched'. calls (Reconcile e req) = tr' @ [StatusUpdate sched']
            \<and> Phase (Status sched') = ''PrerequisitesMissing''
            \<and> PrerequisiteMessage (Status sched') =
                ''missing prerequisites: '' @ strings_Join missing ''; ''
                @ ''. See installation guide: https://github.com/aneeshkp/inference-scheduler-operator/blob/main/README.md#prerequisites''
            \<and> \<not> PrerequisitesValidated (Status sched')
            \<and> (\<exists>c. FindStatusCondition (Conditions (Status sched'))
                       ''PrerequisitesValidated'' = Some c
                   \<and> c_Status c = ConditionFalse
                   \<and> c_Message c = PrerequisiteMessage (Status sched'))"
    unfolding msg_def [symmetric]
    using cs obj c by (intro exI [of _ s2] conjI exI [of _ c]) simp_all
  show ?thesis
    by (rule conjI [OF res conjI [OF er conjI [OF ex nochild]]])
qed


theorem Reconcile_prerequisites_missing_witness:
  "getRootResp (envKgatewayOnly istio) 0 = Inr istio
   \<and> DeletionTimestamp istio = None
   \<and> reconcileInitialize (envKgatewayOnly istio) istio
        [GetInferenceScheduler ''default'' ''demo'']
      = (Inr istioInitialized,
         [GetInferenceScheduler ''default'' ''demo'',
          UpdateInferenceScheduler (istio\<lparr>Finalizers := [finalizerName]\<rparr>),
          StatusUpdate istioInitialized])
   \<and> fst (collectMissingPrereqs (envKgatewayOnly istio) istioInitialized
        [GetInferenceScheduler ''default'' ''demo'',
          UpdateInferenceScheduler (istio\<lparr>Finalizers := [finalizerName]\<rparr>),
          StatusUpdate istioInitialized]) = [missingGatewayClass ''istio'']
   \<and> result (Reconcile (envKgatewayOnly istio) (''default'', ''demo''))
        = \<lparr>Requeue = False, RequeueAfter = 60\<rparr>
   \<and> err (Reconcile (envKgatewayOnly istio) (''default'', ''demo'')) = None
   \<and> length (calls (Reconcile (envKgatewayOnly istio) (''default'', ''demo''))) = 8
   \<and> filter childRequest (calls (Reconcile (envKgatewayOnly istio) (''default'', ''demo'')))
        = []"
proof -
  let ?e = "envKgatewayOnly istio"
  let ?tr = "[GetInferenceScheduler ''default'' ''demo'',
          UpdateInferenceScheduler (istio\<lparr>Finalizers := [finalizerName]\<rparr>),
          StatusUpdate istioInitialized]"
  have root: "getRootResp ?e 0 = Inr istio"
    and w: "\<And>n. writeResp ?e n = None"
    and l: "\<And>n. listResp ?e n = Inr [''kgateway'']"
    by (simp_all add: envKgatewayOnly_def)
  have live: "DeletionTimestamp istio = None"
    by (simp add: istio_def demo_def)
  have fin: "Finalizers istio = []" and ph: "Phase (Status istio) = []"
    and cl: "gw_ClassName (Gateway (Spec istio)) = ''istio''"
    by (simp_all add: istio_def demo_def)
  have init: "reconcileInitialize ?e istio
      [GetInferenceScheduler (fst (''default'', ''demo'')) (snd (''default'', ''demo''))]
      = (Inr istioInitialized, ?tr)"
    by (simp add: reconcileInitialize_def ContainsFinalizer_def AddFinalizer_def fin ph w
          r_UpdateInferenceScheduler_def r_StatusUpdate_def Let_def istioInitialized_def)
  have cl': "gw_ClassName (Gateway (Spec istioInitialized)) = ''istio''"
    by (simp add: istioInitialized_def cl)
  have m: "fst (collectMissingPrereqs ?e istioInitialized ?tr) = [missingGatewayClass ''istio'']"
    by (simp add: collectMissingPrereqs_fst l cl' getDefaultString_def)
  have probes: "collectMissingPrereqs ?e istioInitialized ?tr
      = ([missingGatewayClass ''istio''], snd (collectMissingPrereqs ?e istioInitialized ?tr))"
    using m by (simp add: prod_eq_iff)
  have ne: "[missingGatewayClass ''istio''] \<noteq> []"
    by simp
  have len: "length (snd (collectMissingPrereqs ?e istioInitialized ?tr)) = 7"
    by (simp add: collectMissingPrereqs_calls)
  show ?thesis
    using Reconcile_prerequisites_missing [OF root live init probes ne] root live init m len
    by (auto simp: filter_empty_conv)
qed

subsection \<open>The children of a full pass\<close>

lemma builder_names [simp]:
  "o_Name (buildModelServerDeployment s) = Name s @ ''-vllm''"
  "o_Name (buildModelServerService s) = Name s @ ''-vllm''"
  "o_Name (buildEPPServiceAccount s) = Name s @ ''-epp''"
  "o_Name (buildEPPRole s) = Name s @ ''-epp''"
  "o_Name (buildEPPRoleBinding s) = Name s @ ''-epp''"
  "o_Name (buildEPPConfigMap s) = Name s @ ''-epp-config''"
  "o_Name (buildEPPDeployment s) = Name s @ ''-epp''"
  "o_Name (buildEPPService s) = Name s @ ''-epp''"
  "o_Name (buildInferencePool s) = Name s @ ''-pool''"
  "o_Name (buildGateway s) = Name s @ ''-gateway''"
  "o_Name (buildHTTPRoute s) = Name s @ ''-route''"
  by (simp_all add: buildModelServerDeployment_def buildModelServerService_def
        buildEPPServiceAccount_def buildEPPRole_def buildEPPRoleBinding_def
        buildEPPConfigMap_def buildEPPDeployment_def buildEPPService_def
        buildInferencePool_def buildGateway_def buildHTTPRoute_def Let_def)

lemma builder_kinds [simp]:
  "o_Kind (buildModelServerDeployment s) = ''Deployment''"
  "o_Kind (buildModelServerService s) = ''Service''"
  "o_Kind (buildEPPServiceAccount s) = ''ServiceAccount''"
  "o_Kind (buildEPPRole s) = ''Role''"
  "o_Kind (buildEPPRoleBinding s) = ''RoleBinding''"
  "o_Kind (buildEPPConfigMap s) = ''ConfigMap''"
  "o_Kind (buildEPPDeployment s) = ''Deployment''"
  "o_Kind (buildEPPService s) = ''Service''"
  "o_Kind (buildInferencePool s) = ''InferencePool''"
  "o_Kind (buildGateway s) = ''Gateway''"
  "o_Kind (buildHTTPRoute s) = ''HTTPRoute''"
  by (simp_all add: buildModelServerDeployment_def buildModelServerService_def
        buildEPPServiceAccount_def buildEPPRole_def buildEPPRoleBinding_def
        buildEPPConfigMap_def buildEPPDeployment_def buildEPPService_def
        buildInferencePool_def buildGateway_def buildHTTPRoute_def Let_def)

lemma builder_namespaces [simp]:
  "o_Namespace (buildModelServerDeployment s) = Namespace s"
  "o_Namespace (buildEPPDeployment s) = Namespace s"
  by (simp_all add: buildModelServerDeployment_def buildEPPDeployment_def Let_def)

lemma upserts_append [simp]: "upserts (xs @ ys) = upserts xs @ upserts ys"
  by (simp add: upserts_def)

lemma upserts_simps [simp]:
  "upserts [] = []"
  "upserts (c # cs) = upserted c @ upserts cs"
  by (simp_all add: upserts_def)



lemma createOrUpdateUnstructured_eq:
  "createOrUpdateUnstructured e obj owner tr = createOrUpdate e obj owner tr"
  by (simp add: createOrUpdateUnstructured_def createOrUpdate_def)

lemma isDeploymentReady_calls:
  "snd (isDeploymentReady e ns name tr) = tr @ [Get ''Deployment'' ns name]"
  by (simp add: isDeploymentReady_def r_Get_def split: sum.splits option.splits)

lemma isDeploymentReady_upserts:
  "isDeploymentReady e ns name tr = (r, tr') \<Longrightarrow> upserts tr' = upserts tr"
  using isDeploymentReady_calls [of e ns name tr] by simp

lemma outcome_simps [simp]:
  "result (failed er tr) = NoRequeue" "err (failed er tr) = Some er" "calls (failed er tr) = tr"
  "result (requeueAfter n tr) = \<lparr>Requeue = False, RequeueAfter = n\<rparr>"
  "err (requeueAfter n tr) = None" "calls (requeueAfter n tr) = tr"
  by (simp_all add: failed_def requeueAfter_def)

lemma NoRequeue_neq [simp]: "NoRequeue \<noteq> \<lparr>Requeue = False, RequeueAfter = 300\<rparr>"
  by (simp add: NoRequeue_def)


lemma isDeploymentReady_upserts' [simp]:
  "upserts (snd (isDeploymentReady e ns name tr)) = upserts tr"
  by (simp add: isDeploymentReady_calls)










lemma validatePrerequisites_upserts [simp]:
  "upserts (snd (validatePrerequisites e s tr)) = upserts tr"
proof -
  have "snd (validatePrerequisites e s tr) = snd (collectMissingPrereqs e s tr)"
    by (simp add: validatePrerequisites_def Let_def case_prod_beta)
  then show ?thesis
    by (simp add: collectMissingPrereqs_calls)
qed



lemma reconcileInitialize_upserts [simp]:
  "upserts (snd (reconcileInitialize e s tr)) = upserts tr"
  by (simp add: reconcileInitialize_def r_UpdateInferenceScheduler_def r_StatusUpdate_def
        Let_def split: option.splits)








subsection \<open>Readiness of the two workloads\<close>

lemma Conditions_Status_update [simp]:
  "Conditions (Status (s\<lparr>Status := (Status s)\<lparr>ModelServerReplicas := n\<rparr>\<rparr>)) = Conditions (Status s)"
  "Conditions (Status (s\<lparr>Status := (Status s)\<lparr>EPPReplicas := n\<rparr>\<rparr>)) = Conditions (Status s)"
  by simp_all

lemma Reconcile_at_prerequisites:
  "getRootResp e 0 = Inr sched0 \<Longrightarrow> DeletionTimestamp sched0 = None \<Longrightarrow>
   reconcileInitialize e sched0 [GetInferenceScheduler (fst req) (snd req)] = (Inr sched, tr) \<Longrightarrow>
   Reconcile e req = reconcilePrerequisites e sched tr"
  by (simp add: Reconcile_def r_GetInferenceScheduler_def)

lemma reconcilePrerequisites_at_ModelServer:
  "validatePrerequisites e sched tr = (None, tr1) \<Longrightarrow>
   \<exists>sched'. reconcilePrerequisites e sched tr
                = reconcileModelServer e sched' (tr1 @ [StatusUpdate sched'])
     \<and> Name sched' = Name sched \<and> Namespace sched' = Namespace sched \<and> Spec sched' = Spec sched"
  apply (simp add: reconcilePrerequisites_def prerequisitesValidated_def r_StatusUpdate_def Let_def)
  apply (intro conjI impI)
   apply (rule exI, rule conjI, rule refl, simp)
  apply (rule exI, rule conjI, rule refl, simp)
  done

lemma reconcileModelServer_at_EPP:
  "createOrUpdate e (buildModelServerDeployment sched) sched tr = (None, tr1) \<Longrightarrow>
   createOrUpdate e (buildModelServerService sched) sched tr1 = (None, tr2) \<Longrightarrow>
   isDeploymentReady e (Namespace sched) (Name sched @ ''-vllm'') tr2 = (Inr True, tr3) \<Longrightarrow>
   \<exists>sched'. reconcileModelServer e sched tr = reconcileEPP e sched' tr3
     \<and> Name sched' = Name sched \<and> Namespace sched' = Namespace sched \<and> Spec sched' = Spec sched"
  apply (simp add: reconcileModelServer_def Let_def)
  apply (rule exI, rule conjI, rule refl, simp)
  done

text \<open>
  C4. The readiness probe of a deployment that is read back with a declared replica
  count returns true exactly when the ready-replica count equals it. When the probe
  returns false at the model-server step, or at the EPP step, the rest of the invocation
  is one status update carrying the step's readiness condition with status False, and
  the invocation returns a 30-second requeue with no error: no request of a later step
  is issued. (\<^term>\<open>reconcileModelServer\<close> and \<^term>\<open>reconcileEPP\<close> are \<^verbatim>\<open>Reconcile\<close> from
  that step to its return, as the three lemmas above say.)
\<close>

theorem readiness_gate:
  "(\<forall>d n. getResp e (length tr) = Inr d \<and> specReplicas d = Some n \<longrightarrow>
        isDeploymentReady e ns name tr
          = (Inr (o_ReadyReplicas d = n), tr @ [Get ''Deployment'' ns name]))
   \<and> (\<forall>tr1 tr2 tr3.
        createOrUpdate e (buildModelServerDeployment sched) sched tr = (None, tr1)
        \<and> createOrUpdate e (buildModelServerService sched) sched tr1 = (None, tr2)
        \<and> isDeploymentReady e (Namespace sched) (Name sched @ ''-vllm'') tr2 = (Inr False, tr3)
        \<longrightarrow>
          result (reconcileModelServer e sched tr) = \<lparr>Requeue = False, RequeueAfter = 30\<rparr>
        \<and> err (reconcileModelServer e sched tr) = None
        \<and> (\<exists>sched'. calls (reconcileModelServer e sched tr) = tr3 @ [StatusUpdate sched']
              \<and> (\<exists>c. FindStatusCondition (Conditions (Status sched')) ''ModelServerReady''
                         = Some c
                     \<and> c_Status c = ConditionFalse)))
   \<and> (\<forall>tr1 tr2 tr3 tr4 tr5 tr6 tr7.
        createOrUpdate e (buildEPPServiceAccount sched) sched tr = (None, tr1)
        \<and> createOrUpdate e (buildEPPRole sched) sched tr1 = (None, tr2)
        \<and> createOrUpdate e (buildEPPRoleBinding sched) sched tr2 = (None, tr3)
        \<and> createOrUpdate e (buildEPPConfigMap sched) sched tr3 = (None, tr4)
        \<and> createOrUpdate e (buildEPPDeployment sched) sched tr4 = (None, tr5)
        \<and> createOrUpdate e (buildEPPService sched) sched tr5 = (None, tr6)
        \<and> isDeploymentReady e (Namespace sched) (Name sched @ ''-epp'') tr6 = (Inr False, tr7)
        \<longrightarrow>
          result (reconcileEPP e sched tr) = \<lparr>Requeue = False, RequeueAfter = 30\<rparr>
        \<and> err (reconcileEPP e sched tr) = None
        \<and> (\<exists>sched'. calls (reconcileEPP e sched tr) = tr7 @ [StatusUpdate sched']
              \<and> (\<exists>c. FindStatusCondition (Conditions (Status sched')) ''EPPReady'' = Some c
                     \<and> c_Status c = ConditionFalse)))"
proof (intro conjI allI impI, goal_cases)
  case (1 d n)
  then show ?case
    by (simp add: isDeploymentReady_def r_Get_def)
next
  case (2 tr1 tr2 tr3)
  then show ?case by (simp add: reconcileModelServer_def r_StatusUpdate_def Let_def)
next
  case (3 tr1 tr2 tr3)
  then show ?case by (simp add: reconcileModelServer_def r_StatusUpdate_def Let_def)
next
  case (4 tr1 tr2 tr3)
  define s1 where "s1 = updateCondition sched ''ModelServerReady'' ConditionFalse ''NotReady''
                          ''Model server pods are not ready yet'' (clock e (length tr3))"
  define s2 where "s2 = s1\<lparr>Status := (Status s1)\<lparr>ModelServerReplicas := 0\<rparr>\<rparr>"
  have cs: "calls (reconcileModelServer e sched tr) = tr3 @ [StatusUpdate s2]"
    using 4 by (simp add: reconcileModelServer_def r_StatusUpdate_def Let_def s2_def s1_def)
  obtain c where c: "FindStatusCondition (Conditions (Status s1)) ''ModelServerReady'' = Some c"
      "c_Status c = ConditionFalse"
    using Find_updateCondition_status [of sched "''ModelServerReady''" ConditionFalse
      "''NotReady''" "''Model server pods are not ready yet''" "clock e (length tr3)"]
    unfolding s1_def by blast
  have "FindStatusCondition (Conditions (Status s2)) ''ModelServerReady'' = Some c"
    using c(1) by (simp add: s2_def)
  then show ?case
    using cs c(2) by blast
next
  case (5 tr1 tr2 tr3 tr4 tr5 tr6 tr7)
  then show ?case by (simp add: reconcileEPP_def r_StatusUpdate_def Let_def)
next
  case (6 tr1 tr2 tr3 tr4 tr5 tr6 tr7)
  then show ?case by (simp add: reconcileEPP_def r_StatusUpdate_def Let_def)
next
  case (7 tr1 tr2 tr3 tr4 tr5 tr6 tr7)
  define s1 where "s1 = updateCondition sched ''EPPReady'' ConditionFalse ''NotReady''
                          ''EPP pods are not ready yet'' (clock e (length tr7))"
  define s2 where "s2 = s1\<lparr>Status := (Status s1)\<lparr>EPPReplicas := 0\<rparr>\<rparr>"
  have cs: "calls (reconcileEPP e sched tr) = tr7 @ [StatusUpdate s2]"
    using 7 by (simp add: reconcileEPP_def r_StatusUpdate_def Let_def s2_def s1_def)
  obtain c where c: "FindStatusCondition (Conditions (Status s1)) ''EPPReady'' = Some c"
      "c_Status c = ConditionFalse"
    using Find_updateCondition_status [of sched "''EPPReady''" ConditionFalse
      "''NotReady''" "''EPP pods are not ready yet''" "clock e (length tr7)"]
    unfolding s1_def by blast
  have "FindStatusCondition (Conditions (Status s2)) ''EPPReady'' = Some c"
    using c(1) by (simp add: s2_def)
  then show ?case
    using cs c(2) by blast
qed


theorem readiness_gate_witness:
  "getResp (envProbe 0 notReadyVllm) 0 = Inr notReadyVllm
   \<and> specReplicas notReadyVllm = Some 1
   \<and> o_ReadyReplicas notReadyVllm = 0
   \<and> isDeploymentReady (envProbe 0 notReadyVllm) ''default'' ''demo-vllm'' []
        = (Inr False, [Get ''Deployment'' ''default'' ''demo-vllm''])
   \<and> result (reconcileModelServer (envProbe 4 notReadyVllm) demo [])
        = \<lparr>Requeue = False, RequeueAfter = 30\<rparr>
   \<and> err (reconcileModelServer (envProbe 4 notReadyVllm) demo []) = None
   \<and> length (calls (reconcileModelServer (envProbe 4 notReadyVllm) demo [])) = 6
   \<and> result (reconcileEPP (envProbe 12 notReadyEPP) demo [])
        = \<lparr>Requeue = False, RequeueAfter = 30\<rparr>
   \<and> err (reconcileEPP (envProbe 12 notReadyEPP) demo []) = None
   \<and> length (calls (reconcileEPP (envProbe 12 notReadyEPP) demo [])) = 14
   \<and> result (Reconcile (envProbe 12 notReadyVllm) (''default'', ''demo''))
        = \<lparr>Requeue = False, RequeueAfter = 30\<rparr>"
proof -
  let ?e0 = "envProbe 0 notReadyVllm"
  let ?e1 = "envProbe 4 notReadyVllm"
  let ?e2 = "envProbe 12 notReadyEPP"
  have g0: "getResp ?e0 (length ([] :: call list)) = Inr notReadyVllm \<and> specReplicas notReadyVllm = Some 1"
    by (simp add: envProbe_def notReadyVllm_def specReplicas_def buildModelServerDeployment_def
          Let_def demo_def)
  have rr: "o_ReadyReplicas notReadyVllm = 0"
    by (simp add: notReadyVllm_def)
  have a: "isDeploymentReady ?e0 ''default'' ''demo-vllm'' []
        = (Inr (o_ReadyReplicas notReadyVllm = 1), [] @ [Get ''Deployment'' ''default'' ''demo-vllm''])"
    using readiness_gate [of ?e0 "[]" "''default''" "''demo-vllm''" demo,
            THEN conjunct1, rule_format, OF g0] .
  define t1 where "t1 = snd (createOrUpdate ?e1 (buildModelServerDeployment demo) demo [])"
  define t2 where "t2 = snd (createOrUpdate ?e1 (buildModelServerService demo) demo t1)"
  define t3 where "t3 = snd (isDeploymentReady ?e1 (Namespace demo) (Name demo @ ''-vllm'') t2)"
  have "fst (createOrUpdate ?e1 (buildModelServerDeployment demo) demo []) = None"
    by code_simp
  then have h1: "createOrUpdate ?e1 (buildModelServerDeployment demo) demo [] = (None, t1)"
    by (simp add: t1_def prod_eq_iff)
  have "fst (createOrUpdate ?e1 (buildModelServerService demo) demo
          (snd (createOrUpdate ?e1 (buildModelServerDeployment demo) demo []))) = None"
    by code_simp
  then have h2: "createOrUpdate ?e1 (buildModelServerService demo) demo t1 = (None, t2)"
    by (simp add: t2_def t1_def prod_eq_iff)
  have "fst (isDeploymentReady ?e1 (Namespace demo) (Name demo @ ''-vllm'')
          (snd (createOrUpdate ?e1 (buildModelServerService demo) demo
          (snd (createOrUpdate ?e1 (buildModelServerDeployment demo) demo []))))) = Inr False"
    by code_simp
  then have h3: "isDeploymentReady ?e1 (Namespace demo) (Name demo @ ''-vllm'') t2
                   = (Inr False, t3)"
    by (simp add: t3_def t2_def t1_def prod_eq_iff)
  have l3: "length t3 = 5"
    unfolding t3_def t2_def t1_def by code_simp
  have b: "result (reconcileModelServer ?e1 demo []) = \<lparr>Requeue = False, RequeueAfter = 30\<rparr>
        \<and> err (reconcileModelServer ?e1 demo []) = None
        \<and> (\<exists>sched'. calls (reconcileModelServer ?e1 demo []) = t3 @ [StatusUpdate sched']
              \<and> (\<exists>c. FindStatusCondition (Conditions (Status sched')) ''ModelServerReady''
                         = Some c
                     \<and> c_Status c = ConditionFalse))"
    using readiness_gate [of ?e1 "[]" "''default''" "''demo-vllm''" demo,
            THEN conjunct2, THEN conjunct1, rule_format, of t1 t2 t3] h1 h2 h3
    by blast
  then have bl: "length (calls (reconcileModelServer ?e1 demo [])) = 6"
    using l3 by auto
  have c: "result (reconcileEPP ?e2 demo []) = \<lparr>Requeue = False, RequeueAfter = 30\<rparr>"
    "err (reconcileEPP ?e2 demo []) = None"
    "length (calls (reconcileEPP ?e2 demo [])) = 14"
    by code_simp+
  have d: "result (Reconcile (envProbe 12 notReadyVllm) (''default'', ''demo''))
        = \<lparr>Requeue = False, RequeueAfter = 30\<rparr>"
    by code_simp
  show ?thesis
    using g0 rr a b bl c d by simp
qed

subsection \<open>The upsert\<close>

lemma SetControllerReference_Inr:
  "SetControllerReference owner obj = Inr obj' \<Longrightarrow>
     obj' = obj\<lparr>o_OwnerReferences := upsertOwnerRef (controllerRef owner) (o_OwnerReferences obj)\<rparr>"
  by (auto simp: SetControllerReference_def split: if_splits list.splits)

lemma upsertOwnerRef_mem: "ref \<in> set (upsertOwnerRef ref refs)"
  by (induction refs) auto

lemma SetControllerReference_fresh:
  "o_OwnerReferences obj = [] \<Longrightarrow> o_Namespace obj = Namespace owner \<Longrightarrow>
   SetControllerReference owner obj = Inr (obj\<lparr>o_OwnerReferences := [controllerRef owner]\<rparr>)"
  by (simp add: SetControllerReference_def)

text \<open>
  C2. For every descriptor and owner the upsert first reads by kind, namespace and name.
  A read error other than not-found is returned and nothing is written. On not-found
  the owner reference is attached and the object is created. When an object exists, its
  resource version is copied onto the new descriptor, the owner reference is attached
  and the descriptor is sent as an update: every other field is the new descriptor's.
  The result is the answer of the write. The unstructured variant does the same.
\<close>

theorem createOrUpdate_upsert:
  "(\<exists>rest. snd (createOrUpdate e obj owner tr)
       = tr @ Get (o_Kind obj) (o_Namespace obj) (o_Name obj) # rest)
   \<and> (\<forall>er. getResp e (length tr) = Inl er \<and> \<not> IsNotFound er \<longrightarrow>
         createOrUpdate e obj owner tr
           = (Some er, tr @ [Get (o_Kind obj) (o_Namespace obj) (o_Name obj)]))
   \<and> (\<forall>er obj'. getResp e (length tr) = Inl er \<and> IsNotFound er
          \<and> SetControllerReference owner obj = Inr obj' \<longrightarrow>
         createOrUpdate e obj owner tr
           = (writeResp e (Suc (length tr)),
              tr @ [Get (o_Kind obj) (o_Namespace obj) (o_Name obj), Create obj'])
         \<and> obj' = obj\<lparr>o_OwnerReferences :=
                      upsertOwnerRef (controllerRef owner) (o_OwnerReferences obj)\<rparr>
         \<and> controllerRef owner \<in> set (o_OwnerReferences obj'))
   \<and> (\<forall>existing obj'. getResp e (length tr) = Inr existing
          \<and> SetControllerReference owner
               (obj\<lparr>o_ResourceVersion := o_ResourceVersion existing\<rparr>) = Inr obj' \<longrightarrow>
         createOrUpdate e obj owner tr
           = (writeResp e (Suc (length tr)),
              tr @ [Get (o_Kind obj) (o_Namespace obj) (o_Name obj), Update obj'])
         \<and> obj' = obj\<lparr>o_ResourceVersion := o_ResourceVersion existing,
                      o_OwnerReferences :=
                        upsertOwnerRef (controllerRef owner) (o_OwnerReferences obj)\<rparr>
         \<and> controllerRef owner \<in> set (o_OwnerReferences obj'))
   \<and> createOrUpdateUnstructured e obj owner tr = createOrUpdate e obj owner tr"
proof (intro conjI allI impI)
  show "\<exists>rest. snd (createOrUpdate e obj owner tr)
       = tr @ Get (o_Kind obj) (o_Namespace obj) (o_Name obj) # rest"
    by (simp add: createOrUpdate_def r_Get_def r_Create_def r_Update_def Let_def
             split: sum.splits)
next
  fix er assume "getResp e (length tr) = Inl er \<and> \<not> IsNotFound er"
  then show "createOrUpdate e obj owner tr
           = (Some er, tr @ [Get (o_Kind obj) (o_Namespace obj) (o_Name obj)])"
    by (simp add: createOrUpdate_def r_Get_def)
next
  fix er obj'
  assume h: "getResp e (length tr) = Inl er \<and> IsNotFound er
          \<and> SetControllerReference owner obj = Inr obj'"
  then show "createOrUpdate e obj owner tr
           = (writeResp e (Suc (length tr)),
              tr @ [Get (o_Kind obj) (o_Namespace obj) (o_Name obj), Create obj'])"
    by (simp add: createOrUpdate_def r_Get_def r_Create_def)
  from h show eq: "obj' = obj\<lparr>o_OwnerReferences :=
                      upsertOwnerRef (controllerRef owner) (o_OwnerReferences obj)\<rparr>"
    using SetControllerReference_Inr by blast
  show "controllerRef owner \<in> set (o_OwnerReferences obj')"
    by (simp add: eq upsertOwnerRef_mem)
next
  fix existing obj'
  assume h: "getResp e (length tr) = Inr existing
          \<and> SetControllerReference owner
               (obj\<lparr>o_ResourceVersion := o_ResourceVersion existing\<rparr>) = Inr obj'"
  then show "createOrUpdate e obj owner tr
           = (writeResp e (Suc (length tr)),
              tr @ [Get (o_Kind obj) (o_Namespace obj) (o_Name obj), Update obj'])"
    by (simp add: createOrUpdate_def r_Get_def r_Update_def Let_def)
  from h show eq: "obj' = obj\<lparr>o_ResourceVersion := o_ResourceVersion existing,
                      o_OwnerReferences :=
                        upsertOwnerRef (controllerRef owner) (o_OwnerReferences obj)\<rparr>"
    using SetControllerReference_Inr [of owner "obj\<lparr>o_ResourceVersion := o_ResourceVersion existing\<rparr>" obj']
    by simp
  show "controllerRef owner \<in> set (o_OwnerReferences obj')"
    by (simp add: eq upsertOwnerRef_mem)
next
  show "createOrUpdateUnstructured e obj owner tr = createOrUpdate e obj owner tr"
    by (rule createOrUpdateUnstructured_eq)
qed

theorem createOrUpdate_upsert_witness:
  "getResp envReadFails 0 = Inl (OtherError ''connection refused'')
   \<and> \<not> IsNotFound (OtherError ''connection refused'')
   \<and> createOrUpdate envReadFails (buildModelServerDeployment demo) demo []
        = (Some (OtherError ''connection refused''),
           [Get ''Deployment'' ''default'' ''demo-vllm''])
   \<and> getResp envGone 0 = Inl notFound
   \<and> IsNotFound notFound
   \<and> SetControllerReference demo (buildModelServerDeployment demo)
        = Inr ((buildModelServerDeployment demo)\<lparr>o_OwnerReferences := [controllerRef demo]\<rparr>)
   \<and> createOrUpdate envGone (buildModelServerDeployment demo) demo []
        = (None,
           [Get ''Deployment'' ''default'' ''demo-vllm'',
            Create ((buildModelServerDeployment demo)
                      \<lparr>o_OwnerReferences := [controllerRef demo]\<rparr>)])
   \<and> getResp (envProbe 0 existingVllm) 0 = Inr existingVllm
   \<and> o_ResourceVersion existingVllm = ''42''
   \<and> createOrUpdate (envProbe 0 existingVllm) (buildModelServerDeployment demo) demo []
        = (None,
           [Get ''Deployment'' ''default'' ''demo-vllm'',
            Update ((buildModelServerDeployment demo)
                      \<lparr>o_ResourceVersion := ''42'',
                       o_OwnerReferences := [controllerRef demo]\<rparr>)])"
proof -
  let ?dep = "buildModelServerDeployment demo"
  have meta: "o_Kind ?dep = ''Deployment''" "o_Name ?dep = ''demo-vllm''"
    "o_Namespace ?dep = ''default''" "o_OwnerReferences ?dep = []"
    by (simp_all add: buildModelServerDeployment_def Let_def demo_def)
  have ns: "Namespace demo = ''default''" and nm: "Name demo = ''demo''"
    by (simp_all add: demo_def)
  have g1: "getResp envReadFails (length ([] :: call list)) = Inl (OtherError ''connection refused'')
            \<and> \<not> IsNotFound (OtherError ''connection refused'')"
    by (simp add: envReadFails_def)
  have own: "SetControllerReference demo ?dep = Inr (?dep\<lparr>o_OwnerReferences := [controllerRef demo]\<rparr>)"
    by (rule SetControllerReference_fresh) (simp_all add: meta ns)
  have g2: "getResp envGone (length ([] :: call list)) = Inl notFound \<and> IsNotFound notFound
            \<and> SetControllerReference demo ?dep
                = Inr (?dep\<lparr>o_OwnerReferences := [controllerRef demo]\<rparr>)"
    using own by (simp add: envGone_def notFound_def)
  have rv: "o_ResourceVersion existingVllm = ''42''"
    by (simp add: existingVllm_def)
  have own3: "SetControllerReference demo (?dep\<lparr>o_ResourceVersion := o_ResourceVersion existingVllm\<rparr>)
      = Inr (?dep\<lparr>o_ResourceVersion := ''42'', o_OwnerReferences := [controllerRef demo]\<rparr>)"
    using SetControllerReference_fresh [of "?dep\<lparr>o_ResourceVersion := ''42''\<rparr>" demo]
    by (simp add: meta ns rv)
  have g3: "getResp (envProbe 0 existingVllm) (length ([] :: call list)) = Inr existingVllm
      \<and> SetControllerReference demo (?dep\<lparr>o_ResourceVersion := o_ResourceVersion existingVllm\<rparr>)
          = Inr (?dep\<lparr>o_ResourceVersion := ''42'', o_OwnerReferences := [controllerRef demo]\<rparr>)"
    using own3 by (simp add: envProbe_def)
  have w2: "writeResp envGone (Suc 0) = None" and w3: "writeResp (envProbe 0 existingVllm) (Suc 0) = None"
    by (simp_all add: envGone_def envProbe_def)
  note t1 = createOrUpdate_upsert [of envReadFails ?dep demo "[]", THEN conjunct2, THEN conjunct1,
              rule_format, OF g1]
  note t2 = createOrUpdate_upsert [of envGone ?dep demo "[]", THEN conjunct2, THEN conjunct2,
              THEN conjunct1, rule_format, OF g2, THEN conjunct1]
  note t3 = createOrUpdate_upsert [of "envProbe 0 existingVllm" ?dep demo "[]", THEN conjunct2,
              THEN conjunct2, THEN conjunct2, THEN conjunct1, rule_format, OF g3, THEN conjunct1]
  show ?thesis
    using t1 t2 t3 g1 g2 g3 rv own
    by (simp add: meta w2 w3 ns nm)
qed

end
